theory Spec2Isabelle
  imports Main "HOL-Library.Sublist"
begin

section \<open>JavaScript strings\<close>

text \<open>
  Source text and paths are JavaScript strings, modelled as lists of characters (one
  \<^typ>\<open>char\<close> per code unit). \<open>String.prototype.slice\<close> is total: a negative index counts
  from the end of the string, every index is clamped to the string, and an empty range
  gives the empty string. The second argument is optional.
\<close>

definition slice :: "string \<Rightarrow> int \<Rightarrow> int option \<Rightarrow> string" where
  "slice s start fin =
     (let len = int (length s);
          lo = (if start < 0 then max (len + start) 0 else min start len);
          hi = (case fin of
                  None \<Rightarrow> len
                | Some e \<Rightarrow> if e < 0 then max (len + e) 0 else min e len)
      in take (nat (hi - lo)) (drop (nat lo) s))"

text \<open>\<open>s.charAt(0) === c\<close>: false on the empty string, where \<open>charAt\<close> gives \<open>''\<close>.\<close>

fun charAt0_is :: "string \<Rightarrow> char \<Rightarrow> bool" where
  "charAt0_is [] c = False"
| "charAt0_is (x # xs) c = (x = c)"

text \<open>\<open>s.indexOf(p) === 0\<close>: the string starts with \<open>p\<close>.\<close>

definition indexOf_is_0 :: "string \<Rightarrow> string \<Rightarrow> bool" where
  "indexOf_is_0 s p = (take (length p) s = p)"

text \<open>\<open>s.replace(/c/g, '/')\<close> for a one-character pattern \<open>c\<close>.\<close>

definition replace_char :: "char \<Rightarrow> char \<Rightarrow> string \<Rightarrow> string" where
  "replace_char c d s = map (\<lambda>x. if x = c then d else x) s"

text \<open>A text between single quotes, as the templates of the source write it.\<close>

definition quoted :: "string \<Rightarrow> string" where
  "quoted s = [CHR 0x27] @ s @ [CHR 0x27]"

section \<open>Errors\<close>

text \<open>
  What the code can throw or reject with: the \<open>EmitterError\<close> built by \<open>getError\<close>, the
  error \<open>fs.unlink\<close> hands to its callback, the \<open>TypeError\<close> of JavaScript for a
  property read on \<open>null\<close> or \<open>undefined\<close>, and the \<open>SyntaxError\<close> of \<open>new RegExp\<close> on a
  malformed pattern.
\<close>

datatype jsError = TypeError | EmitterError string | ErrnoException string | SyntaxError string

section \<open>The syntax tree\<close>

text \<open>
  A \<open>ts.Node\<close>: its kind, the span \<open>pos\<close> .. \<open>end\<close> of the source text it covers (leading
  trivia included), the \<open>text\<close> property that literals and identifiers carry (absent on
  other nodes), and the children that \<open>ts.forEachChild\<close> enumerates, in its order. Only
  the syntax kinds that the code tests are named.
\<close>

datatype syntaxKind =
    SourceFile
  | ExternalModuleReference
  | DeclareKeyword
  | StringLiteral
  | ExportDeclaration
  | ImportDeclaration
  | OtherKind nat

datatype node =
  Node (kind: syntaxKind) (pos: nat) (endPos: nat) (nodeText: "string option") (children: "node list")

text \<open>
  A \<open>ts.SourceFile\<close> is the root node of its tree together with the file's name and
  text, the marker of an external module and the paths of its reference directives.
\<close>

record sourceFile =
  fileName :: string
  sourceText :: string
  rootNode :: node
  externalModuleIndicator :: bool
  referencedFiles :: "string list"

section \<open>The tree rewriter\<close>

text \<open>
  \<open>processTree\<close> keeps two variables, the output \<open>code\<close> and \<open>cursorPosition\<close>; \<open>visit\<close>
  threads them as a pair. \<open>readThrough\<close> appends the text from the cursor to the node's
  start and moves the cursor there; a replacement is appended and \<open>skip\<close> moves the cursor
  to the node's end; otherwise the children are visited with the node as their parent.
  The replacer is a JavaScript function and may throw.
\<close>

type_synonym replacer = "node \<Rightarrow> node option \<Rightarrow> jsError + string option"

fun visit :: "string \<Rightarrow> replacer \<Rightarrow> node \<Rightarrow> node option \<Rightarrow> string \<times> nat \<Rightarrow> jsError + string \<times> nat"
  and forEachChild :: "string \<Rightarrow> replacer \<Rightarrow> node list \<Rightarrow> node option \<Rightarrow> string \<times> nat \<Rightarrow> jsError + string \<times> nat"
where
  "visit src replacer (Node k p e t cs) parent (code, cursorPosition) =
     (let code1 = code @ slice src (int cursorPosition) (Some (int p)) in
      case replacer (Node k p e t cs) parent of
        Inl err \<Rightarrow> Inl err
      | Inr (Some replacement) \<Rightarrow> Inr (code1 @ replacement, e)
      | Inr None \<Rightarrow> forEachChild src replacer cs (Some (Node k p e t cs)) (code1, p))"
| "forEachChild src replacer [] parent st = Inr st"
| "forEachChild src replacer (c # cs) parent st =
     (case visit src replacer c parent st of
        Inl err \<Rightarrow> Inl err
      | Inr st' \<Rightarrow> forEachChild src replacer cs parent st')"

definition processTree :: "sourceFile \<Rightarrow> replacer \<Rightarrow> jsError + string" where
  "processTree sf replacer =
     (case visit (sourceText sf) replacer (rootNode sf) None ([], 0) of
        Inl err \<Rightarrow> Inl err
      | Inr (code, cursorPosition) \<Rightarrow>
          Inr (code @ slice (sourceText sf) (int cursorPosition) None))"

subsection \<open>Parsed trees\<close>

text \<open>
  The trees that reach \<open>processTree\<close> come from the TypeScript parser
  (\<open>program.getSourceFiles\<close>, \<open>ts.createSourceFile\<close>). In a parsed tree a node's span is
  well formed, the children lie inside the span of their parent, and they follow each
  other in source order without overlap.
\<close>

fun parsed :: "node \<Rightarrow> bool"
  and parsedWithin :: "nat \<Rightarrow> nat \<Rightarrow> node list \<Rightarrow> bool"
where
  "parsed (Node k p e t cs) = parsedWithin p e cs"
| "parsedWithin lo hi [] = (lo \<le> hi)"
| "parsedWithin lo hi (c # cs) =
     (lo \<le> pos c \<and> parsed c \<and> parsedWithin (endPos c) hi cs)"

text \<open>The calls \<open>replacer(node, parent)\<close> that a full traversal of a tree can make.\<close>

fun replacerCalls :: "node option \<Rightarrow> node \<Rightarrow> (node \<times> node option) list"
  and replacerCallsList :: "node option \<Rightarrow> node list \<Rightarrow> (node \<times> node option) list"
where
  "replacerCalls parent (Node k p e t cs) =
     (Node k p e t cs, parent) # replacerCallsList (Some (Node k p e t cs)) cs"
| "replacerCallsList parent [] = []"
| "replacerCallsList parent (c # cs) = replacerCalls parent c @ replacerCallsList parent cs"

text \<open>
  The calls \<open>replacer(node, parent)\<close> that the traversal of \<open>visit\<close> makes: the children of a
  node are visited only where the replacer returns \<open>null\<close> on it, so nothing below a
  replaced node is among them.
\<close>

fun visitedCalls :: "replacer \<Rightarrow> node option \<Rightarrow> node \<Rightarrow> (node \<times> node option) list"
  and visitedCallsList :: "replacer \<Rightarrow> node option \<Rightarrow> node list \<Rightarrow> (node \<times> node option) list"
where
  "visitedCalls replacer parent (Node k p e t cs) =
     (Node k p e t cs, parent)
       # (case replacer (Node k p e t cs) parent of
            Inr None \<Rightarrow> visitedCallsList replacer (Some (Node k p e t cs)) cs
          | _ \<Rightarrow> [])"
| "visitedCallsList replacer parent [] = []"
| "visitedCallsList replacer parent (c # cs) =
     visitedCalls replacer parent c @ visitedCallsList replacer parent cs"

subsection \<open>The contract of the rewriter, as the specification words it\<close>

text \<open>
  The replaced spans of a tree: the outermost nodes for which the replacer returns a
  string, in source order, each with its span and its replacement. The descendants of a
  replaced node are not looked at.
\<close>

fun replacedSpans :: "replacer \<Rightarrow> node option \<Rightarrow> node \<Rightarrow> (nat \<times> nat \<times> string) list"
  and replacedSpansList :: "replacer \<Rightarrow> node option \<Rightarrow> node list \<Rightarrow> (nat \<times> nat \<times> string) list"
where
  "replacedSpans replacer parent (Node k p e t cs) =
     (case replacer (Node k p e t cs) parent of
        Inr (Some replacement) \<Rightarrow> [(p, e, replacement)]
      | _ \<Rightarrow> replacedSpansList replacer (Some (Node k p e t cs)) cs)"
| "replacedSpansList replacer parent [] = []"
| "replacedSpansList replacer parent (c # cs) =
     replacedSpans replacer parent c @ replacedSpansList replacer parent cs"

text \<open>
  The text with the given spans replaced: the original text between the spans, unchanged
  and in order, and each replacement once, in place of its span.
\<close>

fun spliceFrom :: "string \<Rightarrow> nat \<Rightarrow> (nat \<times> nat \<times> string) list \<Rightarrow> string" where
  "spliceFrom src cur [] = drop cur src"
| "spliceFrom src cur ((p, e, replacement) # spans) =
     take (p - cur) (drop cur src) @ replacement @ spliceFrom src e spans"


section \<open>Paths\<close>

text \<open>
  Node's \<open>path\<close> module is not part of the repository: it is a parameter of the model.
  \<open>resolve\<close> and \<open>join\<close> take their arguments as a list. \<open>sep\<close> is \<open>/\<close> on POSIX and the
  backslash on Windows.
\<close>

record pathUtil =
  sep :: char
  resolve :: "string list \<Rightarrow> string"
  normalizePath :: "string \<Rightarrow> string"
  dirname :: "string \<Rightarrow> string"
  joinPath :: "string list \<Rightarrow> string"
  relative :: "string \<Rightarrow> string \<Rightarrow> string"

text \<open>
  \<open>filenameToMid\<close> is chosen once, from \<open>pathUtil.sep\<close>: the identity where the separator
  is the forward slash, and otherwise the replacement of every separator by a forward
  slash (the regular expression built from the separator matches that one character).
\<close>

definition filenameToMid :: "pathUtil \<Rightarrow> string \<Rightarrow> string" where
  "filenameToMid pu filename =
     (if sep pu = CHR ''/'' then filename else replace_char (sep pu) (CHR ''/'') filename)"

subsection \<open>The POSIX instance\<close>

text \<open>
  The POSIX variant of Node's \<open>path\<close> module, as Node documents and implements it, for
  the concrete runs below. \<open>cwd\<close> is the working directory of the process, an absolute
  path.
\<close>

fun splitOn :: "char \<Rightarrow> string \<Rightarrow> string list" where
  "splitOn c [] = [[]]"
| "splitOn c (x # xs) =
     (if x = c then [] # splitOn c xs
      else (case splitOn c xs of [] \<Rightarrow> [[x]] | y # ys \<Rightarrow> (x # y) # ys))"

fun joinWith :: "string \<Rightarrow> string list \<Rightarrow> string" where
  "joinWith d [] = []"
| "joinWith d [x] = x"
| "joinWith d (x # y # ys) = x @ d @ joinWith d (y # ys)"

definition nonEmptyParts :: "string \<Rightarrow> string list" where
  "nonEmptyParts p = filter (\<lambda>part. part \<noteq> []) (splitOn (CHR ''/'') p)"

text \<open>Resolves \<open>.\<close> and \<open>..\<close> from the last part to the first, counting the pending \<open>..\<close>.\<close>

definition normalizeArray :: "string list \<Rightarrow> bool \<Rightarrow> string list" where
  "normalizeArray parts allowAboveRoot =
     (let (kept, up) =
            foldr (\<lambda>part (acc, up).
                     if part = ''.'' then (acc, up)
                     else if part = ''..'' then (acc, Suc up)
                     else if 0 < up then (acc, up - 1)
                     else (part # acc, up))
                  parts ([], 0::nat)
      in if allowAboveRoot then replicate up ''..'' @ kept else kept)"

definition posix_normalize :: "string \<Rightarrow> string" where
  "posix_normalize p =
     (let isAbsolute = charAt0_is p (CHR ''/'');
          trailingSlash = (p \<noteq> [] \<and> last p = CHR ''/'');
          p1 = joinWith ''/'' (normalizeArray (nonEmptyParts p) (\<not> isAbsolute));
          p2 = (if p1 = [] \<and> \<not> isAbsolute then ''.'' else p1);
          p3 = (if p2 \<noteq> [] \<and> trailingSlash then p2 @ ''/'' else p2)
      in (if isAbsolute then ''/'' else []) @ p3)"

definition posix_join :: "string list \<Rightarrow> string" where
  "posix_join paths = posix_normalize (joinWith ''/'' (filter (\<lambda>p. p \<noteq> []) paths))"

text \<open>
  \<open>resolve\<close> reads its arguments from the last to the first, then the working directory,
  until the path is absolute.
\<close>

fun resolveFrom :: "string list \<Rightarrow> string \<Rightarrow> string \<times> bool" where
  "resolveFrom [] acc = (acc, False)"
| "resolveFrom (p # ps) acc =
     (if p = [] then resolveFrom ps acc
      else if charAt0_is p (CHR ''/'') then (p @ ''/'' @ acc, True)
      else resolveFrom ps (p @ ''/'' @ acc))"

definition posix_resolve :: "string \<Rightarrow> string list \<Rightarrow> string" where
  "posix_resolve cwd paths =
     (let (resolvedPath, resolvedAbsolute) = resolveFrom (rev paths @ [cwd]) [];
          p = (if resolvedAbsolute then ''/'' else [])
                @ joinWith ''/'' (normalizeArray (nonEmptyParts resolvedPath) (\<not> resolvedAbsolute))
      in if p = [] then ''.'' else p)"

text \<open>
  \<open>dirname\<close> scans the path from its end down to its second character: it passes the
  trailing slashes and the last part, and cuts the path at the slash before that part.
\<close>

definition posix_dirname :: "string \<Rightarrow> string" where
  "posix_dirname p =
     (if p = [] then ''.''
      else
        (let hasRoot = charAt0_is p (CHR ''/'');
             afterParts = dropWhile (\<lambda>c. c = CHR ''/'') (rev (tl p));
             cut = length (dropWhile (\<lambda>c. c \<noteq> CHR ''/'') afterParts)
         in if cut = 0 then (if hasRoot then ''/'' else ''.'')
            else if hasRoot \<and> cut = 1 then ''//''
            else take cut p))"

fun samePartsLength :: "string list \<Rightarrow> string list \<Rightarrow> nat" where
  "samePartsLength (x # xs) (y # ys) = (if x = y then Suc (samePartsLength xs ys) else 0)"
| "samePartsLength xs ys = 0"

definition posix_relative :: "string \<Rightarrow> string \<Rightarrow> string \<Rightarrow> string" where
  "posix_relative cwd fromPath toPath =
     (let fromParts = nonEmptyParts (posix_resolve cwd [fromPath]);
          toParts = nonEmptyParts (posix_resolve cwd [toPath]);
          same = samePartsLength fromParts toParts
      in joinWith ''/'' (replicate (length fromParts - same) ''..'' @ drop same toParts))"

definition posix :: "string \<Rightarrow> pathUtil" where
  "posix cwd =
     \<lparr> sep = CHR ''/'',
       resolve = posix_resolve cwd,
       normalizePath = posix_normalize,
       dirname = posix_dirname,
       joinPath = posix_join,
       relative = posix_relative cwd \<rparr>"


section \<open>The interface of \<open>generate\<close>\<close>

text \<open>
  The \<open>Options\<close> of the source; an optional property that is absent is \<open>None\<close>. The
  property \<open>includes\<close> is declared and never read.
\<close>

record options =
  baseDir :: string
  files :: "string list"
  excludes :: "string list option"
  externs :: "string list option"
  eol :: "string option"
  indent :: "string option"
  main :: "string option"
  name :: string
  out :: string
  target :: "nat option"

subsection \<open>The compiler service\<close>

text \<open>
  The TypeScript compiler is a collaborator. A diagnostic is taken with its position
  already resolved to a line and a character (both counted from 0). \<open>program.emit\<close>
  answers with its \<open>EmitResult\<close> after it has called the \<open>writeFile\<close> callback for each
  file it wrote; the calls are part of the answer here, in their order.
\<close>

record diagnostic =
  diagFileName :: string
  diagLine :: nat
  diagCharacter :: nat
  diagCode :: nat
  messageText :: string

record emitOutput =
  emitSkipped :: bool
  diagnostics :: "diagnostic list"
  writeFileCalls :: "(string \<times> string) list"

record program =
  getSourceFiles :: "sourceFile list"
  emit :: "sourceFile \<Rightarrow> emitOutput"
  getSemanticDiagnostics :: "sourceFile \<Rightarrow> diagnostic list"
  getSyntacticDiagnostics :: "sourceFile \<Rightarrow> diagnostic list"
  getDeclarationDiagnostics :: "sourceFile \<Rightarrow> diagnostic list"

text \<open>
  The environment of a run: the \<open>path\<close> module, \<open>os.EOL\<close>, the compiler
  (\<open>ts.createProgram\<close> on the file names and the target, \<open>ts.createSourceFile\<close> on a name,
  a text and the target, \<open>ts.ScriptTarget.Latest\<close>), the files on disk before the run, and
  the answer of \<open>fs.unlink\<close> for a path that exists (\<open>None\<close>: the file is deleted). Creating
  the output directory and opening, writing and closing the two streams are taken to
  succeed; messages sent to \<open>sendMessage\<close> are not recorded.

  The code calls \<open>fs.unlink\<close> on the auxiliary file in the same turn in which it creates
  and ends the auxiliary stream, and waits for neither the open nor the close of the
  stream. Which of the two the runtime performs first is a property of the runtime:
  \<open>unlinkBeforeOpen\<close> says that the unlink comes before the stream opens its file.

  The regular expression engine of the runtime stands behind two functions, used where
  the pattern or the replacement is not a plain text: \<open>regExpError\<close> is the error that
  \<open>new RegExp(source, 'g')\<close> throws, if any, and \<open>regExpReplace source replacement content\<close>
  is \<open>content.replace(new RegExp(source, 'g'), replacement)\<close>.
\<close>

record env =
  pathModule :: pathUtil
  osEOL :: string
  createProgram :: "string list \<Rightarrow> nat \<Rightarrow> program"
  createSourceFile :: "string \<Rightarrow> string \<Rightarrow> nat \<Rightarrow> sourceFile"
  scriptTargetLatest :: nat
  disk :: "string \<rightharpoonup> string"
  unlinkError :: "string \<Rightarrow> jsError option"
  unlinkBeforeOpen :: bool
  regExpError :: "string \<Rightarrow> jsError option"
  regExpReplace :: "string \<Rightarrow> string \<Rightarrow> string \<Rightarrow> string"

subsection \<open>getError\<close>

function decimal :: "nat \<Rightarrow> string" where
  "decimal n = (if n < 10 then [char_of (48 + n)] else decimal (n div 10) @ [char_of (48 + n mod 10)])"
  by pat_completeness auto
termination
  by (relation "measure id") auto

definition getError :: "diagnostic list \<Rightarrow> jsError" where
  "getError ds =
     EmitterError
       (foldl (\<lambda>message d.
                 message @ [CHR 0x0A] @ diagFileName d @ ''('' @ decimal (diagLine d + 1) @ '',''
                   @ decimal (diagCharacter d + 1) @ ''): '' @ ''error TS'' @ decimal (diagCode d)
                   @ '': '' @ messageText d)
              ''Declaration generation failed'' ds)"

subsection \<open>getFilenames\<close>

definition getFilenames :: "pathUtil \<Rightarrow> string \<Rightarrow> string list \<Rightarrow> string list" where
  "getFilenames pu resolvedBaseDir fs =
     map (\<lambda>filename.
            let resolvedFilename = resolve pu [filename]
            in if indexOf_is_0 resolvedFilename resolvedBaseDir then resolvedFilename
               else resolve pu [resolvedBaseDir, filename])
         fs"

subsection \<open>The variables that \<open>generate\<close> computes from its options\<close>

text \<open>
  \<open>options.eol || os.EOL\<close>: an absent and an empty \<open>eol\<close> are both falsy.
  \<open>options.indent === undefined ? '\t' : options.indent\<close>: only an absent \<open>indent\<close> is
  replaced. \<open>options.target || ts.ScriptTarget.Latest\<close>: an absent target and the target
  0 are both falsy.
\<close>

definition generate_baseDir :: "env \<Rightarrow> options \<Rightarrow> string" where
  "generate_baseDir ev opts = resolve (pathModule ev) [baseDir opts]"

definition generate_eol :: "env \<Rightarrow> options \<Rightarrow> string" where
  "generate_eol ev opts =
     (case eol opts of None \<Rightarrow> osEOL ev | Some e \<Rightarrow> if e = [] then osEOL ev else e)"

definition generate_indent :: "options \<Rightarrow> string" where
  "generate_indent opts = (case indent opts of None \<Rightarrow> [CHR 0x09] | Some i \<Rightarrow> i)"

definition generate_target :: "env \<Rightarrow> options \<Rightarrow> nat" where
  "generate_target ev opts =
     (case target opts of
        None \<Rightarrow> scriptTargetLatest ev
      | Some t \<Rightarrow> if t = 0 then scriptTargetLatest ev else t)"

definition generate_excludes :: "env \<Rightarrow> options \<Rightarrow> string list" where
  "generate_excludes ev opts =
     (case excludes opts of
        None \<Rightarrow> []
      | Some xs \<Rightarrow>
          map (\<lambda>filename.
                 filenameToMid (pathModule ev)
                   (resolve (pathModule ev) [generate_baseDir ev opts, filename]))
              xs)"

text \<open>The auxiliary stream is opened only where \<open>options.out\<close> ends in \<open>.d.ts\<close>.\<close>

definition generate_outputRefPath :: "options \<Rightarrow> string option" where
  "generate_outputRefPath opts =
     (if slice (out opts) (- 5) None = ''.d.ts''
      then Some (slice (out opts) 0 (Some (- 5)) @ ''.ref.d.ts'')
      else None)"

definition generate_program :: "env \<Rightarrow> options \<Rightarrow> program" where
  "generate_program ev opts =
     createProgram ev
       (getFilenames (pathModule ev) (generate_baseDir ev opts) (files opts))
       (generate_target ev opts)"

subsection \<open>The buffers\<close>

record buffers =
  outputString :: string
  outputRefString :: string
  wroteToOutputRef :: bool

text \<open>A reference directive, with the end of line that follows it.\<close>

definition referenceLine :: "string \<Rightarrow> string \<Rightarrow> string" where
  "referenceLine p e = ''/// <reference path='' @ [CHR 0x22] @ p @ [CHR 0x22] @ '' />'' @ e"


section \<open>The declaration writer\<close>

text \<open>The module identifier of a declaration file: \<open>sourceModuleId\<close> in \<open>writeDeclaration\<close>.\<close>

definition sourceModuleId :: "env \<Rightarrow> options \<Rightarrow> string \<Rightarrow> string" where
  "sourceModuleId ev opts filename =
     name opts @ filenameToMid (pathModule ev)
       (slice filename (int (length (generate_baseDir ev opts))) (Some (- 5)))"

text \<open>
  The replacer that \<open>writeDeclaration\<close> hands to \<open>processTree\<close>. The expression of an
  external module reference is its one child. Reading \<open>text\<close> of an absent expression,
  \<open>charAt\<close> of an absent \<open>text\<close>, and \<open>kind\<close> of the absent parent of the root throw a
  \<open>TypeError\<close>.
\<close>

definition relativeToMid :: "env \<Rightarrow> string \<Rightarrow> string \<Rightarrow> string" where
  "relativeToMid ev moduleId specifier =
     filenameToMid (pathModule ev)
       (joinPath (pathModule ev) [dirname (pathModule ev) moduleId, specifier])"

definition writeDeclaration_replacer :: "env \<Rightarrow> string \<Rightarrow> replacer" where
  "writeDeclaration_replacer ev moduleId nd parent =
     (if kind nd = ExternalModuleReference then
        (case children nd of
           [] \<Rightarrow> Inl TypeError
         | expression # others \<Rightarrow>
             (case nodeText expression of
                None \<Rightarrow> Inl TypeError
              | Some t \<Rightarrow>
                  if charAt0_is t (CHR ''.'')
                  then Inr (Some ('' require('' @ quoted (relativeToMid ev moduleId t) @ '')''))
                  else Inr None))
      else if kind nd = DeclareKeyword then Inr (Some [])
      else if kind nd = StringLiteral then
        (case parent of
           None \<Rightarrow> Inl TypeError
         | Some par \<Rightarrow>
             if kind par = ExportDeclaration \<or> kind par = ImportDeclaration then
               (case nodeText nd of
                  None \<Rightarrow> Inl TypeError
                | Some t \<Rightarrow>
                    if charAt0_is t (CHR ''.'')
                    then Inr (Some ('' '' @ quoted (relativeToMid ev moduleId t)))
                    else Inr None)
             else Inr None)
      else Inr None)"

text \<open>
  \<open>nonEmptyLineStart\<close> is \<open>new RegExp(eol + '(?!' + eol + '|$)', 'g')\<close>, and the content of a
  module is indented by \<open>content.replace(nonEmptyLineStart, '$&' + indent)\<close>. The end of line
  enters the pattern unescaped and the indent enters the replacement unescaped.

  A text without a syntax character of regular expressions is a pattern that matches
  that text and nothing else; a replacement without \<open>$\<close> stands for itself.
\<close>

definition syntaxCharacters :: string where
  "syntaxCharacters = ''^$.*+?()[]{}|'' @ [CHR 0x5C]"

definition literalPattern :: "string \<Rightarrow> bool" where
  "literalPattern e = list_all (\<lambda>c. c \<notin> set syntaxCharacters) e"

definition literalReplacement :: "string \<Rightarrow> bool" where
  "literalReplacement i = list_all (\<lambda>c. c \<noteq> CHR ''$'') i"

definition nonEmptyLineStart_source :: "string \<Rightarrow> string" where
  "nonEmptyLineStart_source e = e @ ''(?!'' @ e @ ''|$)''"

text \<open>
  For a literal end of line \<open>e\<close> the expression is \<open>e(?!e|$)\<close>: it matches \<open>e\<close> where neither
  another \<open>e\<close> nor the end of the text follows (for the empty \<open>e\<close> the lookahead always
  fails: no match). The global replacement goes through the text from the left and
  resumes after each match; with a literal indent \<open>i\<close> it puts \<open>i\<close> after each match.
\<close>

definition nonEmptyLineStart_at :: "string \<Rightarrow> string \<Rightarrow> bool" where
  "nonEmptyLineStart_at e s =
     (e \<noteq> [] \<and> prefix e s \<and> drop (length e) s \<noteq> [] \<and> \<not> prefix e (drop (length e) s))"

function replace_nonEmptyLineStart :: "string \<Rightarrow> string \<Rightarrow> string \<Rightarrow> string" where
  "replace_nonEmptyLineStart e i [] = []"
| "replace_nonEmptyLineStart e i (c # cs) =
     (if nonEmptyLineStart_at e (c # cs)
      then e @ i @ replace_nonEmptyLineStart e i (drop (length e) (c # cs))
      else c # replace_nonEmptyLineStart e i cs)"
  by pat_completeness auto
termination
  by (relation "measure (\<lambda>(e, i, s). length s)") (auto simp: nonEmptyLineStart_at_def)

text \<open>
  The error of line 102, if \<open>new RegExp\<close> throws there: a literal end of line always
  compiles, any other is up to the engine.
\<close>

definition generate_nonEmptyLineStart_error :: "env \<Rightarrow> options \<Rightarrow> jsError option" where
  "generate_nonEmptyLineStart_error ev opts =
     (if literalPattern (generate_eol ev opts) then None
      else regExpError ev (nonEmptyLineStart_source (generate_eol ev opts)))"

text \<open>
  The indented content, line 279: the replacement above where the end of line and the
  indent are literal, and what the engine makes of the pattern and the replacement
  otherwise.
\<close>

definition indentContent :: "env \<Rightarrow> options \<Rightarrow> string \<Rightarrow> string" where
  "indentContent ev opts content =
     (if literalPattern (generate_eol ev opts) \<and> literalReplacement (generate_indent opts)
      then replace_nonEmptyLineStart (generate_eol ev opts) (generate_indent opts) content
      else regExpReplace ev (nonEmptyLineStart_source (generate_eol ev opts))
             (''$&'' @ generate_indent opts) content)"

text \<open>One reference directive of an external module, hoisted to the auxiliary buffer.\<close>

definition hoistReference :: "env \<Rightarrow> options \<Rightarrow> string \<Rightarrow> string \<Rightarrow> buffers \<Rightarrow> string \<Rightarrow> buffers" where
  "hoistReference ev opts outputRefPath filename b refPath =
     (let pu = pathModule ev;
          refFullPath = resolve pu [dirname pu (resolve pu [generate_baseDir ev opts, filename]), refPath];
          refRelPath = filenameToMid pu (relative pu (dirname pu outputRefPath) refFullPath)
      in b\<lparr> outputRefString := outputRefString b @ referenceLine refRelPath (generate_eol ev opts),
            wroteToOutputRef := True \<rparr>)"

definition writeDeclaration :: "env \<Rightarrow> options \<Rightarrow> sourceFile \<Rightarrow> buffers \<Rightarrow> jsError + buffers" where
  "writeDeclaration ev opts declarationFile b =
     (let filename = fileName declarationFile;
          moduleId = sourceModuleId ev opts filename
      in if externalModuleIndicator declarationFile then
           (let b1 = (case generate_outputRefPath opts of
                        None \<Rightarrow> b
                      | Some outputRefPath \<Rightarrow>
                          foldl (hoistReference ev opts outputRefPath filename) b
                                (referencedFiles declarationFile));
                b2 = b1\<lparr> outputString := outputString b1 @ ''declare module '' @ quoted moduleId
                            @ '' {'' @ generate_eol ev opts @ generate_indent opts \<rparr>
            in case processTree declarationFile (writeDeclaration_replacer ev moduleId) of
                 Inl err \<Rightarrow> Inl err
               | Inr content \<Rightarrow>
                   (let b3 = b2\<lparr> outputString := outputString b2
                               @ indentContent ev opts content \<rparr>
                    in Inr (b3\<lparr> outputString := outputString b3 @ generate_eol ev opts @ ''}''
                                  @ generate_eol ev opts \<rparr>)))
         else Inr (b\<lparr> outputString := outputString b @ sourceText declarationFile \<rparr>))"

text \<open>
  The \<open>writeFile\<close> callback of \<open>program.emit\<close>: a file that is not a declaration file is
  ignored, a declaration file is parsed and written.
\<close>

definition writeFile :: "env \<Rightarrow> options \<Rightarrow> buffers \<Rightarrow> string \<times> string \<Rightarrow> jsError + buffers" where
  "writeFile ev opts b call =
     (case call of (filename, content) \<Rightarrow>
        if slice filename (- 5) None \<noteq> ''.d.ts'' then Inr b
        else writeDeclaration ev opts
               (createSourceFile ev filename content (generate_target ev opts)) b)"

fun writeFiles :: "env \<Rightarrow> options \<Rightarrow> (string \<times> string) list \<Rightarrow> buffers \<Rightarrow> jsError + buffers" where
  "writeFiles ev opts [] b = Inr b"
| "writeFiles ev opts (call # calls) b =
     (case writeFile ev opts b call of
        Inl err \<Rightarrow> Inl err
      | Inr b' \<Rightarrow> writeFiles ev opts calls b')"

section \<open>The units of a program\<close>

text \<open>
  A source file outside the base directory, or one that is excluded, is passed over.
\<close>

definition passedOver :: "env \<Rightarrow> options \<Rightarrow> sourceFile \<Rightarrow> bool" where
  "passedOver ev opts sf =
     (\<not> indexOf_is_0 (normalizePath (pathModule ev) (fileName sf)) (generate_baseDir ev opts)
      \<or> filenameToMid (pathModule ev) (normalizePath (pathModule ev) (fileName sf))
           \<in> set (generate_excludes ev opts))"

text \<open>The error that \<open>generate\<close> rejects with when the emitter fails on a source file.\<close>

definition emitError :: "program \<Rightarrow> sourceFile \<Rightarrow> jsError" where
  "emitError prog sf =
     getError (diagnostics (emit prog sf) @ getSemanticDiagnostics prog sf
                 @ getSyntacticDiagnostics prog sf @ getDeclarationDiagnostics prog sf)"

text \<open>
  \<open>program.getSourceFiles().some(...)\<close>: the loop over the units. It ends at the first
  unit whose callback returns \<open>true\<close>, which is where the promise is rejected; the
  second component of the result is that rejection. A thrown error leaves the loop.
\<close>

fun someSourceFile :: "env \<Rightarrow> options \<Rightarrow> program \<Rightarrow> sourceFile list \<Rightarrow> buffers \<Rightarrow> jsError + buffers \<times> jsError option" where
  "someSourceFile ev opts prog [] b = Inr (b, None)"
| "someSourceFile ev opts prog (sf # sfs) b =
     (if passedOver ev opts sf then someSourceFile ev opts prog sfs b
      else if slice (fileName sf) (- 5) None = ''.d.ts'' then
        (case writeDeclaration ev opts sf b of
           Inl err \<Rightarrow> Inl err
         | Inr b' \<Rightarrow> someSourceFile ev opts prog sfs b')
      else
        (case writeFiles ev opts (writeFileCalls (emit prog sf)) b of
           Inl err \<Rightarrow> Inl err
         | Inr b' \<Rightarrow>
             if emitSkipped (emit prog sf) \<or> diagnostics (emit prog sf) \<noteq> []
             then Inr (b', Some (emitError prog sf))
             else someSourceFile ev opts prog sfs b'))"

section \<open>generate\<close>

text \<open>
  The promise that \<open>generate\<close> returns is settled once: a later \<open>resolve\<close> or \<open>reject\<close> has no
  effect. Where \<open>generate\<close> throws before it has made its promise, there is no promise:
  that outcome is \<open>Threw\<close>.
\<close>

datatype outcome = Resolved | Rejected jsError | Threw jsError

definition settle :: "jsError option \<Rightarrow> outcome \<Rightarrow> outcome" where
  "settle rejected later = (case rejected of None \<Rightarrow> later | Some err \<Rightarrow> Rejected err)"

record generateResult =
  promise :: outcome
  storage :: "string \<rightharpoonup> string"

definition externLines :: "env \<Rightarrow> options \<Rightarrow> string" where
  "externLines ev opts =
     (case externs opts of
        None \<Rightarrow> []
      | Some xs \<Rightarrow> foldl (\<lambda>s p. s @ referenceLine p (generate_eol ev opts)) [] xs)"

text \<open>The alias of the main module; \<open>if (options.main)\<close> is false for the empty string.\<close>

definition mainAlias :: "env \<Rightarrow> options \<Rightarrow> string" where
  "mainAlias ev opts =
     (case main opts of
        None \<Rightarrow> []
      | Some m \<Rightarrow>
          if m = [] then []
          else ''declare module '' @ quoted (name opts) @ '' {''
                 @ generate_eol ev opts @ generate_indent opts
               @ ''import main = require('' @ quoted m @ '');''
                 @ generate_eol ev opts @ generate_indent opts
               @ ''export = main;'' @ generate_eol ev opts
               @ ''}'' @ generate_eol ev opts)"

text \<open>
  The buffers when the promise's executor reaches \<open>output.write\<close>: the extern lines, the
  units, the alias, and last the reference to the auxiliary file, put in front. The run
  does not get there when an error is thrown before: by \<open>new RegExp\<close> at line 102, or in
  the executor.
\<close>

definition generate_buffers :: "env \<Rightarrow> options \<Rightarrow> jsError + buffers \<times> jsError option" where
  "generate_buffers ev opts =
     (case generate_nonEmptyLineStart_error ev opts of
        Some err \<Rightarrow> Inl err
      | None \<Rightarrow>
          (let b0 = \<lparr> outputString = externLines ev opts, outputRefString = [],
                     wroteToOutputRef = False \<rparr>
           in case someSourceFile ev opts (generate_program ev opts)
                     (getSourceFiles (generate_program ev opts)) b0 of
                Inl err \<Rightarrow> Inl err
              | Inr (b1, rejected) \<Rightarrow>
                  (let b2 = b1\<lparr> outputString := outputString b1 @ mainAlias ev opts \<rparr>;
                       b3 = (if wroteToOutputRef b2
                             then b2\<lparr> outputString :=
                                       referenceLine
                                         (case generate_outputRefPath opts of
                                            None \<Rightarrow> ''undefined'' | Some p \<Rightarrow> p)
                                         (generate_eol ev opts)
                                       @ outputString b2 \<rparr>
                             else b2)
                   in Inr (b3, rejected))))"

text \<open>
  The answer of \<open>fs.unlink\<close> on the auxiliary file. Where the unlink comes before the
  stream has opened its file, the file is there only if it was on disk before the run;
  an unlink of a file that is not there fails (with \<open>ENOENT\<close>, when the environment names
  no other error).
\<close>

definition unlinkAnswer :: "env \<Rightarrow> string \<Rightarrow> jsError option" where
  "unlinkAnswer ev p =
     (if unlinkBeforeOpen ev \<and> disk ev p = None
      then Some (case unlinkError ev p of None \<Rightarrow> ErrnoException ''ENOENT'' | Some err \<Rightarrow> err)
      else unlinkError ev p)"

text \<open>
  The run, and the files when all its operations have completed. If \<open>new RegExp\<close> throws
  at line 102, \<open>generate\<close> throws: nothing is created yet and there is no promise. Otherwise
  both streams are created, and their files are created empty (or truncated) when they
  open. An error thrown in the executor rejects the promise before anything is written.
  Otherwise the main buffer is written, and the close of the main stream resolves the
  promise. The auxiliary buffer is written if a reference was hoisted. If none was, the
  auxiliary stream is ended and the auxiliary file unlinked: the promise is rejected
  where the unlink fails (the listener of the main stream's close is removed); the file
  is gone after an unlink that succeeds on the file that the stream has opened, and it
  is there, empty, where the unlink fails or comes before the stream opens the file.
\<close>

definition generate :: "env \<Rightarrow> options \<Rightarrow> generateResult" where
  "generate ev opts =
     (case generate_nonEmptyLineStart_error ev opts of
        Some err \<Rightarrow> \<lparr> promise = Threw err, storage = disk ev \<rparr>
      | None \<Rightarrow>
          (let opened = (case generate_outputRefPath opts of
                           None \<Rightarrow> (disk ev)(out opts \<mapsto> [])
                         | Some p \<Rightarrow> ((disk ev)(out opts \<mapsto> []))(p \<mapsto> []))
           in case generate_buffers ev opts of
                Inl err \<Rightarrow> \<lparr> promise = Rejected err, storage = opened \<rparr>
              | Inr (b, rejected) \<Rightarrow>
                  (let written = opened(out opts \<mapsto> outputString b)
                   in case generate_outputRefPath opts of
                        None \<Rightarrow> \<lparr> promise = settle rejected Resolved, storage = written \<rparr>
                      | Some p \<Rightarrow>
                          if wroteToOutputRef b
                          then \<lparr> promise = settle rejected Resolved,
                                 storage = written(p \<mapsto> outputRefString b) \<rparr>
                          else (case unlinkAnswer ev p of
                                  Some err \<Rightarrow>
                                    \<lparr> promise = settle rejected (Rejected err),
                                       storage = written \<rparr>
                                | None \<Rightarrow>
                                    \<lparr> promise = settle rejected Resolved,
                                       storage = (if unlinkBeforeOpen ev then written
                                                  else written(p := None)) \<rparr>))))"

section \<open>Notions of the statements\<close>

text \<open>The replacer returns, with a string or with \<open>null\<close>, on each of the given calls.\<close>

definition neverThrows :: "replacer \<Rightarrow> (node \<times> node option) list \<Rightarrow> bool" where
  "neverThrows r calls =
     list_all (\<lambda>(nd, parent). case r nd parent of Inl err \<Rightarrow> False | Inr v \<Rightarrow> True) calls"

text \<open>The replacer returns \<open>null\<close> on each of the given calls.\<close>

definition alwaysNull :: "replacer \<Rightarrow> (node \<times> node option) list \<Rightarrow> bool" where
  "alwaysNull r calls = list_all (\<lambda>(nd, parent). r nd parent = Inr None) calls"

text \<open>
  Spans that lie between two positions, each well formed, in source order and without
  overlap.
\<close>

fun spansInOrder :: "nat \<Rightarrow> nat \<Rightarrow> (nat \<times> nat \<times> string) list \<Rightarrow> bool" where
  "spansInOrder lo hi [] = (lo \<le> hi)"
| "spansInOrder lo hi ((p, e, replacement) # spans) =
     (lo \<le> p \<and> p \<le> e \<and> spansInOrder e hi spans)"

text \<open>
  The text that one declaration file adds to the main buffer: its own text for a script,
  the wrapped and indented rewriting for an external module.
\<close>

definition declarationBlock :: "env \<Rightarrow> options \<Rightarrow> sourceFile \<Rightarrow> string" where
  "declarationBlock ev opts f =
     (if externalModuleIndicator f then
        ''declare module '' @ quoted (sourceModuleId ev opts (fileName f)) @ '' {''
          @ generate_eol ev opts @ generate_indent opts
          @ (case processTree f (writeDeclaration_replacer ev (sourceModuleId ev opts (fileName f))) of
               Inl err \<Rightarrow> []
             | Inr content \<Rightarrow> indentContent ev opts content)
          @ generate_eol ev opts @ ''}'' @ generate_eol ev opts
      else sourceText f)"

text \<open>
  The text that one unit of the program adds to the main buffer: nothing for a unit that
  is passed over, the block of a declaration file, and for any other unit the blocks of
  the declaration files that the emitter writes for it.
\<close>

definition unitBlock_call :: "env \<Rightarrow> options \<Rightarrow> string \<times> string \<Rightarrow> string" where
  "unitBlock_call ev opts call =
     (case call of (filename, content) \<Rightarrow>
        if slice filename (- 5) None \<noteq> ''.d.ts'' then []
        else declarationBlock ev opts
               (createSourceFile ev filename content (generate_target ev opts)))"

definition unitBlock :: "env \<Rightarrow> options \<Rightarrow> program \<Rightarrow> sourceFile \<Rightarrow> string" where
  "unitBlock ev opts prog sf =
     (if passedOver ev opts sf then []
      else if slice (fileName sf) (- 5) None = ''.d.ts'' then declarationBlock ev opts sf
      else concat (map (unitBlock_call ev opts) (writeFileCalls (emit prog sf))))"

text \<open>A unit on which the emitter fails: it is processed, and its emit is skipped or has diagnostics.\<close>

definition emitFails :: "env \<Rightarrow> options \<Rightarrow> program \<Rightarrow> sourceFile \<Rightarrow> bool" where
  "emitFails ev opts prog sf =
     (\<not> passedOver ev opts sf \<and> slice (fileName sf) (- 5) None \<noteq> ''.d.ts''
      \<and> (emitSkipped (emit prog sf) \<or> diagnostics (emit prog sf) \<noteq> []))"

text \<open>
  The units that the loop reaches: all of them up to the first on which the emitter
  fails, that one included. The first failure is what the promise is rejected with in
  the loop.
\<close>

fun unitsReached :: "env \<Rightarrow> options \<Rightarrow> program \<Rightarrow> sourceFile list \<Rightarrow> sourceFile list" where
  "unitsReached ev opts prog [] = []"
| "unitsReached ev opts prog (sf # sfs) =
     sf # (if emitFails ev opts prog sf then [] else unitsReached ev opts prog sfs)"

fun firstFailure :: "env \<Rightarrow> options \<Rightarrow> program \<Rightarrow> sourceFile list \<Rightarrow> jsError option" where
  "firstFailure ev opts prog [] = None"
| "firstFailure ev opts prog (sf # sfs) =
     (if emitFails ev opts prog sf then Some (emitError prog sf)
      else firstFailure ev opts prog sfs)"

text \<open>
  The auxiliary file after a run that reaches \<open>output.write\<close> with the buffers \<open>b\<close>: the
  auxiliary buffer if a reference was hoisted; else no file after an unlink that
  succeeds on the opened file, and an empty file otherwise.
\<close>

definition auxiliaryFile :: "env \<Rightarrow> string \<Rightarrow> buffers \<Rightarrow> string option" where
  "auxiliaryFile ev p b =
     (if wroteToOutputRef b then Some (outputRefString b)
      else if unlinkBeforeOpen ev then Some []
      else (case unlinkError ev p of None \<Rightarrow> None | Some err \<Rightarrow> Some []))"

subsection \<open>Auxiliary notions of the proofs\<close>

definition between :: "string \<Rightarrow> nat \<Rightarrow> nat \<Rightarrow> string" where
  "between src a b = take (b - a) (drop a src)"

fun spliceTo :: "string \<Rightarrow> nat \<Rightarrow> (nat \<times> nat \<times> string) list \<Rightarrow> nat \<Rightarrow> string" where
  "spliceTo src cur [] q = between src cur q"
| "spliceTo src cur ((p, e, replacement) # spans) q =
     between src cur p @ replacement @ spliceTo src e spans q"

definition startsAfter :: "nat \<Rightarrow> (nat \<times> nat \<times> string) list \<Rightarrow> bool" where
  "startsAfter lo spans = (case spans of [] \<Rightarrow> True | (p, e, s) # rest \<Rightarrow> lo \<le> p)"

definition refInvariant :: "buffers \<Rightarrow> bool" where
  "refInvariant b = (wroteToOutputRef b = (outputRefString b \<noteq> []))"

section \<open>A worked example\<close>

text \<open>
  A package \<open>pkg\<close> in \<open>/pkg/src\<close>. The unit \<open>b.ts\<close> imports \<open>./a\<close>; the compiler writes
  \<open>b.js\<close> and the declaration file \<open>b.d.ts\<close> for it, whose text and tree are
  \<open>exampleB\<close>. The other kinds of its tree are 1 for an import-equals declaration, 2 for
  an identifier, 3 for a variable statement, 4 for the \<open>export\<close> keyword, 5 for a variable
  declaration list, 6 for a variable declaration, 7 for the \<open>number\<close> keyword and 8 for the
  end-of-file token. \<open>a.d.ts\<close> is a script of global declarations, \<open>c.d.ts\<close> an external
  module with a reference directive, and on \<open>bad.ts\<close> the emitter fails.
\<close>

definition exampleB_text :: string where
  "exampleB_text =
     ''import a = require('' @ quoted ''./a'' @ '');\<newline>export declare var x: number;\<newline>''"

definition exampleB_root :: node where
  "exampleB_root =
     Node SourceFile 0 57 None
       [Node (OtherKind 1) 0 26 None
          [Node (OtherKind 2) 6 8 (Some ''a'') [],
           Node ExternalModuleReference 10 25 None
             [Node StringLiteral 19 24 (Some ''./a'') []]],
        Node (OtherKind 3) 26 56 None
          [Node (OtherKind 4) 26 33 None [],
           Node DeclareKeyword 33 41 None [],
           Node (OtherKind 5) 41 55 None
             [Node (OtherKind 6) 45 55 None
                [Node (OtherKind 2) 45 47 (Some ''x'') [],
                 Node (OtherKind 7) 48 55 None []]]],
        Node (OtherKind 8) 56 57 None []]"

definition exampleB :: sourceFile where
  "exampleB =
     \<lparr> fileName = ''/pkg/src/b.d.ts'', sourceText = exampleB_text, rootNode = exampleB_root,
       externalModuleIndicator = True, referencedFiles = [] \<rparr>"

definition exampleA :: sourceFile where
  "exampleA =
     \<lparr> fileName = ''/pkg/src/a.d.ts'', sourceText = ''declare var g: number;\<newline>'',
       rootNode =
         Node SourceFile 0 23 None
           [Node (OtherKind 3) 0 22 None
              [Node DeclareKeyword 0 7 None [],
               Node (OtherKind 5) 7 21 None
                 [Node (OtherKind 6) 11 21 None
                    [Node (OtherKind 2) 11 13 (Some ''g'') [],
                     Node (OtherKind 7) 14 21 None []]]],
            Node (OtherKind 8) 22 23 None []],
       externalModuleIndicator = False, referencedFiles = [] \<rparr>"

definition exampleBts :: sourceFile where
  "exampleBts =
     \<lparr> fileName = ''/pkg/src/b.ts'',
       sourceText = ''import a = require('' @ quoted ''./a'' @ '');\<newline>export var x = 1;\<newline>'',
       rootNode = Node SourceFile 0 45 None [],
       externalModuleIndicator = True, referencedFiles = [] \<rparr>"

definition exampleC_text :: string where
  \<open>exampleC_text =
     ''/// <reference path="../typings/t.d.ts" />\<newline>export declare var y: number;\<newline>''\<close>

definition exampleC :: sourceFile where
  "exampleC =
     \<lparr> fileName = ''/pkg/src/c.d.ts'', sourceText = exampleC_text,
       rootNode =
         Node SourceFile 0 73 None
           [Node (OtherKind 3) 0 72 None
              [Node (OtherKind 4) 0 49 None [],
               Node DeclareKeyword 49 57 None [],
               Node (OtherKind 5) 57 71 None
                 [Node (OtherKind 6) 61 71 None
                    [Node (OtherKind 2) 61 63 (Some ''y'') [],
                     Node (OtherKind 7) 64 71 None []]]],
            Node (OtherKind 8) 72 73 None []],
       externalModuleIndicator = True, referencedFiles = [''../typings/t.d.ts''] \<rparr>"

definition exampleBad :: sourceFile where
  "exampleBad =
     \<lparr> fileName = ''/pkg/src/bad.ts'', sourceText = ''var z = q;\<newline>'',
       rootNode = Node SourceFile 0 11 None [],
       externalModuleIndicator = False, referencedFiles = [] \<rparr>"

definition exampleProgram :: "sourceFile list \<Rightarrow> program" where
  "exampleProgram units =
     \<lparr> getSourceFiles = units,
       emit = (\<lambda>sf. if fileName sf = ''/pkg/src/b.ts''
                    then \<lparr> emitSkipped = False, diagnostics = [],
                           writeFileCalls = [(''/pkg/src/b.js'', ''var x = 1;\<newline>''),
                                             (''/pkg/src/b.d.ts'', exampleB_text)] \<rparr>
                    else \<lparr> emitSkipped = True, diagnostics = [], writeFileCalls = [] \<rparr>),
       getSemanticDiagnostics =
         (\<lambda>sf. if fileName sf = ''/pkg/src/b.ts'' then []
               else [\<lparr> diagFileName = fileName sf, diagLine = 0, diagCharacter = 8,
                       diagCode = 2304, messageText = ''Cannot find name q.'' \<rparr>]),
       getSyntacticDiagnostics = (\<lambda>sf. []),
       getDeclarationDiagnostics = (\<lambda>sf. []) \<rparr>"

text \<open>
  The environment of the example: POSIX paths, the program above whatever the file
  names, a parser that knows the text of \<open>b.d.ts\<close>, an empty disk, the given answer of
  \<open>fs.unlink\<close>, and a runtime that opens the file of a stream after the turn that created
  the stream, so after the unlink. Its regular expression engine rejects every pattern
  that is not a plain text.
\<close>

definition exampleEnv :: "sourceFile list \<Rightarrow> jsError option \<Rightarrow> env" where
  "exampleEnv units answer =
     \<lparr> pathModule = posix ''/home/user'', osEOL = ''\<newline>'',
       createProgram = (\<lambda>filenames t. exampleProgram units),
       createSourceFile =
         (\<lambda>filename content t.
            if content = exampleB_text then exampleB\<lparr> fileName := filename \<rparr>
            else \<lparr> fileName = filename, sourceText = content,
                   rootNode = Node SourceFile 0 (length content) None [],
                   externalModuleIndicator = False, referencedFiles = [] \<rparr>),
       scriptTargetLatest = 2,
       disk = Map.empty,
       unlinkError = (\<lambda>p. answer),
       unlinkBeforeOpen = True,
       regExpError = (\<lambda>source. Some (SyntaxError source)),
       regExpReplace = (\<lambda>source replacement content. content) \<rparr>"

text \<open>
  A replacer that replaces every external module reference and throws on every string
  literal.
\<close>

definition exampleReplacer :: replacer where
  "exampleReplacer nd parent =
     (if kind nd = ExternalModuleReference then Inr (Some '' require(0)'')
      else if kind nd = StringLiteral then Inl TypeError
      else Inr None)"

definition exampleOptions :: options where
  "exampleOptions =
     \<lparr> baseDir = ''/pkg/src'', files = [''a.d.ts'', ''b.ts''], excludes = None,
       externs = Some [''x.d.ts'', ''y.d.ts''], eol = Some ''\<newline>'', indent = Some ''  '',
       main = Some ''./b'', name = ''pkg'', out = ''/out/pkg.d.ts'', target = None \<rparr>"


section \<open>The tree rewriter meets its contract\<close>

lemma slice_nat: "slice s (int a) (Some (int b)) = take (b - a) (drop a s)"
  by (auto simp: slice_def Let_def min_def max_def nat_diff_distrib')

lemma slice_from: "slice s (int a) None = drop a s"
  by (auto simp: slice_def Let_def min_def)

lemma between_append: "a \<le> b \<Longrightarrow> b \<le> c \<Longrightarrow> between src a b @ between src b c = between src a c"
proof -
  assume ab: "a \<le> b" and bc: "b \<le> c"
  have "take ((b - a) + (c - b)) (drop a src) = take (b - a) (drop a src) @ take (c - b) (drop (b - a) (drop a src))"
    by (rule take_add)
  moreover have "drop (b - a) (drop a src) = drop b src" using ab by simp
  moreover have "(b - a) + (c - b) = c - a" using ab bc by simp
  ultimately show ?thesis by (simp add: between_def)
qed

lemma between_drop: "length src \<le> q \<Longrightarrow> between src a q = drop a src"
  by (simp add: between_def)

lemma spliceTo_drop: "length src \<le> q \<Longrightarrow> spliceTo src cur spans q = spliceFrom src cur spans"
  by (induction src cur spans rule: spliceFrom.induct) (auto simp: between_drop between_def)

lemma spliceTo_append:
  "spliceTo src cur (xs @ (p, e, s) # rest) q = spliceTo src cur xs p @ s @ spliceTo src e rest q"
  by (induction src cur xs p rule: spliceTo.induct) auto

lemma spliceTo_shift:
  "cur \<le> p \<Longrightarrow> p \<le> q \<Longrightarrow> startsAfter p spans \<Longrightarrow>
   between src cur p @ spliceTo src p spans q = spliceTo src cur spans q"
  by (cases spans) (auto simp: startsAfter_def between_append)

lemma parsed_span:
  "parsed n \<Longrightarrow> pos n \<le> endPos n"
  "parsedWithin lo hi cs \<Longrightarrow> lo \<le> hi"
proof (induction n and lo hi cs rule: parsed_parsedWithin.induct)
  case (1 k p e t cs)
  then show ?case by simp
next
  case (2 lo hi)
  then show ?case by simp
next
  case (3 lo hi c cs)
  then show ?case by simp
qed

lemma startsAfter_mono: "lo \<le> lo' \<Longrightarrow> startsAfter lo' spans \<Longrightarrow> startsAfter lo spans"
  by (auto simp: startsAfter_def split: list.splits)

lemma startsAfter_append:
  "startsAfter lo (xs @ ys) = (if xs = [] then startsAfter lo ys else startsAfter lo xs)"
  by (cases xs) (auto simp: startsAfter_def)

lemma startsAfter_spans:
  "parsed n \<Longrightarrow> startsAfter (pos n) (replacedSpans r parent n)"
  "parsedWithin lo hi cs \<Longrightarrow> startsAfter lo (replacedSpansList r parent cs)"
proof (induction r parent n and r parent cs arbitrary: and lo hi rule: replacedSpans_replacedSpansList.induct)
  case (1 replacer parent k p e t cs)
  then show ?case
    by (auto simp: startsAfter_def split: sum.splits option.splits list.splits)
next
  case (2 replacer parent)
  then show ?case by (simp add: startsAfter_def)
next
  case (3 replacer parent c cs)
  from "3.prems" have c: "lo \<le> pos c" "parsed c" and cs: "parsedWithin (endPos c) hi cs"
    by simp_all
  have "startsAfter lo (replacedSpans replacer parent c)"
    using "3.IH"(1)[OF c(2)] c(1) by (rule startsAfter_mono[rotated])
  moreover have "startsAfter lo (replacedSpansList replacer parent cs)"
    using "3.IH"(2)[OF cs] c(1) parsed_span(1)[OF c(2)]
    by (auto intro: startsAfter_mono[rotated])
  ultimately show ?case by (simp add: startsAfter_append)
qed


lemma neverThrows_Cons:
  "neverThrows r ((m, q) # calls) = ((\<exists>v. r m q = Inr v) \<and> neverThrows r calls)"
  by (auto simp: neverThrows_def split: sum.splits)

lemma neverThrows_append:
  "neverThrows r (xs @ ys) = (neverThrows r xs \<and> neverThrows r ys)"
  by (simp add: neverThrows_def)

lemma spliceTo_join:
  assumes A: "\<forall>q\<ge>cur1. code1 @ between src cur1 q = code @ spliceTo src cur A q"
    and B: "startsAfter cur1 B" and q: "cur1 \<le> q"
  shows "code1 @ spliceTo src cur1 B q = code @ spliceTo src cur (A @ B) q"
proof (cases B)
  case Nil
  then show ?thesis using A q by simp
next
  case (Cons x rest)
  obtain p e s where x: "x = (p, e, s)" by (cases x) auto
  have p: "cur1 \<le> p" using B Cons x by (simp add: startsAfter_def)
  have "code1 @ between src cur1 p = code @ spliceTo src cur A p" using A p by blast
  then show ?thesis using Cons x by (simp add: spliceTo_append)
qed

lemma visit_spans:
  "parsed n \<Longrightarrow> snd st \<le> pos n \<Longrightarrow> neverThrows r (visitedCalls r parent n) \<Longrightarrow>
     \<exists>code' cur'. visit src r n parent st = Inr (code', cur') \<and> pos n \<le> cur' \<and> cur' \<le> endPos n \<and>
       (\<forall>q\<ge>cur'. code' @ between src cur' q
                 = fst st @ spliceTo src (snd st) (replacedSpans r parent n) q)"
  "parsedWithin lo hi cs \<Longrightarrow> snd st' \<le> lo \<Longrightarrow> neverThrows r (visitedCallsList r parent cs) \<Longrightarrow>
     \<exists>code' cur'. forEachChild src r cs parent st' = Inr (code', cur') \<and> snd st' \<le> cur' \<and> cur' \<le> hi \<and>
       (\<forall>q\<ge>cur'. code' @ between src cur' q
                 = fst st' @ spliceTo src (snd st') (replacedSpansList r parent cs) q)"
proof (induction src r n parent st and src r cs parent st' arbitrary: and lo hi
       rule: visit_forEachChild.induct)
  case (1 src r k p e t cs parent code cur)
  let ?n = "Node k p e t cs"
  from "1.prems" have pw: "parsedWithin p e cs" and cur: "cur \<le> p"
    by simp_all
  from "1.prems" obtain v where v: "r ?n parent = Inr v"
    by (auto simp: neverThrows_Cons)
  have nt: "neverThrows r (visitedCallsList r (Some ?n) cs)" if "v = None"
    using "1.prems"(3) v that by (simp add: neverThrows_Cons)
  have pe: "p \<le> e" using pw by (rule parsed_span(2))
  show ?case
  proof (cases v)
    case (Some s)
    then show ?thesis using v pe by (simp add: slice_nat between_def)
  next
    case None
    let ?code1 = "code @ slice src (int cur) (Some (int p))"
    from "1.IH"[OF refl v None pw _ nt[OF None]]
    obtain code' cur' where r: "forEachChild src r cs (Some ?n) (?code1, p) = Inr (code', cur')"
      and b: "p \<le> cur'" "cur' \<le> e"
      and eq: "\<forall>q\<ge>cur'. code' @ between src cur' q
                 = ?code1 @ spliceTo src p (replacedSpansList r (Some ?n) cs) q"
      by auto
    have sa: "startsAfter p (replacedSpansList r (Some ?n) cs)"
      using pw by (rule startsAfter_spans(2))
    have "\<forall>q\<ge>cur'. code' @ between src cur' q
                 = code @ spliceTo src cur (replacedSpansList r (Some ?n) cs) q"
    proof (intro allI impI)
      fix q assume q: "cur' \<le> q"
      then have "p \<le> q" using b by simp
      from spliceTo_shift[OF cur this sa, of src] eq q
      show "code' @ between src cur' q = code @ spliceTo src cur (replacedSpansList r (Some ?n) cs) q"
        by (simp add: slice_nat between_def)
    qed
    then show ?thesis using v None r b by simp
  qed
next
  case (2 src r parent st)
  then show ?case by (cases st) simp
next
  case (3 src r c cs parent st)
  from "3.prems" have c: "lo \<le> pos c" "parsed c" and cs: "parsedWithin (endPos c) hi cs"
    and nt: "neverThrows r (visitedCalls r parent c)" "neverThrows r (visitedCallsList r parent cs)"
    by (simp_all add: neverThrows_append)
  from "3.prems" c have st: "snd st \<le> pos c" by simp
  from "3.IH"(1)[OF c(2) st nt(1)]
  obtain code1 cur1 where v: "visit src r c parent st = Inr (code1, cur1)"
    and b1: "pos c \<le> cur1" "cur1 \<le> endPos c"
    and eq1: "\<forall>q\<ge>cur1. code1 @ between src cur1 q
                 = fst st @ spliceTo src (snd st) (replacedSpans r parent c) q"
    by auto
  from "3.IH"(2)[OF v cs _ nt(2)] b1
  obtain code2 cur2 where f: "forEachChild src r cs parent (code1, cur1) = Inr (code2, cur2)"
    and b2: "cur1 \<le> cur2" "cur2 \<le> hi"
    and eq2: "\<forall>q\<ge>cur2. code2 @ between src cur2 q
                 = code1 @ spliceTo src cur1 (replacedSpansList r parent cs) q"
    by auto
  have sa: "startsAfter cur1 (replacedSpansList r parent cs)"
    using startsAfter_spans(2)[OF cs] b1(2) by (rule startsAfter_mono[rotated])
  have "\<forall>q\<ge>cur2. code2 @ between src cur2 q
          = fst st @ spliceTo src (snd st) (replacedSpansList r parent (c # cs)) q"
  proof (intro allI impI)
    fix q assume q: "cur2 \<le> q"
    then have "cur1 \<le> q" using b2 by simp
    from spliceTo_join[OF eq1 sa this] eq2 q
    show "code2 @ between src cur2 q
          = fst st @ spliceTo src (snd st) (replacedSpansList r parent (c # cs)) q"
      by simp
  qed
  moreover have "snd st \<le> cur2" using st b1 b2 by simp
  ultimately show ?case using v f b2 by simp
qed


lemma spansInOrder_weaken:
  "lo' \<le> lo \<Longrightarrow> spansInOrder lo hi spans \<Longrightarrow> spansInOrder lo' hi spans"
  by (cases spans) auto

lemma spansInOrder_append:
  "spansInOrder lo mid xs \<Longrightarrow> spansInOrder mid hi ys \<Longrightarrow> spansInOrder lo hi (xs @ ys)"
  by (induction lo mid xs rule: spansInOrder.induct) (auto intro: spansInOrder_weaken)

lemma spansInOrder_spans:
  "parsed n \<Longrightarrow> spansInOrder (pos n) (endPos n) (replacedSpans r parent n)"
  "parsedWithin lo hi cs \<Longrightarrow> spansInOrder lo hi (replacedSpansList r parent cs)"
proof (induction r parent n and r parent cs arbitrary: and lo hi
       rule: replacedSpans_replacedSpansList.induct)
  case (1 replacer parent k p e t cs)
  then have pw: "parsedWithin p e cs" by simp
  then have "p \<le> e" by (rule parsed_span(2))
  then show ?case using "1.IH" pw
    by (auto split: sum.splits option.splits)
next
  case (2 replacer parent)
  then show ?case by simp
next
  case (3 replacer parent c cs)
  from "3.prems" have c: "lo \<le> pos c" "parsed c" and cs: "parsedWithin (endPos c) hi cs"
    by simp_all
  have "spansInOrder lo (endPos c) (replacedSpans replacer parent c)"
    using c(1) "3.IH"(1)[OF c(2)] by (rule spansInOrder_weaken)
  then show ?case using "3.IH"(2)[OF cs] by (simp add: spansInOrder_append)
qed

lemma visit_result:
  assumes "parsed (rootNode sf)"
    and "neverThrows r (visitedCalls r None (rootNode sf))"
  shows "processTree sf r
           = Inr (spliceFrom (sourceText sf) 0 (replacedSpans r None (rootNode sf)))"
proof -
  let ?src = "sourceText sf"
  from visit_spans(1)[OF assms(1) _ assms(2), of "([], 0)" ?src]
  obtain code' cur' where v: "visit ?src r (rootNode sf) None ([], 0) = Inr (code', cur')"
    and eq: "\<forall>q\<ge>cur'. code' @ between ?src cur' q
               = spliceTo ?src 0 (replacedSpans r None (rootNode sf)) q"
    by auto
  let ?q = "max cur' (length ?src)"
  have "code' @ between ?src cur' ?q = spliceTo ?src 0 (replacedSpans r None (rootNode sf)) ?q"
    using eq by simp
  then have "code' @ drop cur' ?src = spliceFrom ?src 0 (replacedSpans r None (rootNode sf))"
    by (simp add: between_drop spliceTo_drop)
  then show ?thesis using v by (simp add: processTree_def slice_from)
qed

lemma alwaysNull_neverThrows: "alwaysNull r calls \<Longrightarrow> neverThrows r calls"
  by (induction calls) (auto simp: alwaysNull_def neverThrows_def)

lemma alwaysNull_visited:
  "alwaysNull r (replacerCalls parent n) \<Longrightarrow> visitedCalls r parent n = replacerCalls parent n"
  "alwaysNull r (replacerCallsList parent cs) \<Longrightarrow>
     visitedCallsList r parent cs = replacerCallsList parent cs"
  by (induction r parent n and r parent cs rule: visitedCalls_visitedCallsList.induct)
     (auto simp: alwaysNull_def)

lemma alwaysNull_spans:
  "alwaysNull r (replacerCalls parent n) \<Longrightarrow> replacedSpans r parent n = []"
  "alwaysNull r (replacerCallsList parent cs) \<Longrightarrow> replacedSpansList r parent cs = []"
  by (induction r parent n and r parent cs rule: replacedSpans_replacedSpansList.induct)
     (auto simp: alwaysNull_def)

text \<open>
  Claim C2. For a source unit whose tree is a parsed tree, and a replacer that returns
  \<open>null\<close> on every node of the tree (with the parent it is visited from), the output of
  \<open>processTree\<close> is the text of the unit, exactly.
\<close>

theorem processTree_identity:
  assumes "parsed (rootNode sf)"
    and "alwaysNull replacer (replacerCalls None (rootNode sf))"
  shows "processTree sf replacer = Inr (sourceText sf)"
proof -
  have "neverThrows replacer (visitedCalls replacer None (rootNode sf))"
    using alwaysNull_neverThrows[OF assms(2)] by (simp add: alwaysNull_visited(1)[OF assms(2)])
  from visit_result[OF assms(1) this] show ?thesis
    by (simp add: alwaysNull_spans(1)[OF assms(2)])
qed

lemma visit_agree:
  "list_all (\<lambda>(nd, parent). r' nd parent = r nd parent) (visitedCalls r parent n)
     \<Longrightarrow> visit src r' n parent st = visit src r n parent st"
  "list_all (\<lambda>(nd, parent). r' nd parent = r nd parent) (visitedCallsList r parent cs)
     \<Longrightarrow> forEachChild src r' cs parent st = forEachChild src r cs parent st"
proof (induction src r n parent st and src r cs parent st rule: visit_forEachChild.induct)
  case (1 src replacer k p e t cs parent code cursorPosition)
  then show ?case
    by (auto simp: Let_def split: sum.splits option.splits)
next
  case (2 src replacer parent st)
  then show ?case by simp
next
  case (3 src replacer c cs parent st)
  then show ?case
    by (auto split: sum.splits)
qed

lemma processTree_agree:
  "list_all (\<lambda>(nd, parent). r' nd parent = r nd parent) (visitedCalls r None (rootNode sf))
     \<Longrightarrow> processTree sf r' = processTree sf r"
  by (simp add: processTree_def visit_agree(1))

text \<open>
  Claim C3. Take a source unit whose tree is a parsed tree and a replacer that returns on
  the calls that the traversal makes: the calls of \<open>visitedCalls\<close>, which has nothing below
  a node on which the replacer returns a string. Then the output of \<open>processTree\<close> is the
  text of the unit with the replaced spans spliced: the text outside the spans, unchanged
  and in order, and for each outermost node on which the replacer returns a string, that
  string once in place of the whole span of the node. The replaced spans are in source
  order and do not overlap. No descendant of a replaced node is visited: the replacer
  may throw there, and any replacer that agrees with this one on the calls of the
  traversal gives the same output, whatever it does on the descendants.
\<close>

theorem processTree_contract:
  assumes "parsed (rootNode sf)"
    and "neverThrows replacer (visitedCalls replacer None (rootNode sf))"
  shows "processTree sf replacer
           = Inr (spliceFrom (sourceText sf) 0 (replacedSpans replacer None (rootNode sf)))
         \<and> spansInOrder 0 (endPos (rootNode sf)) (replacedSpans replacer None (rootNode sf))
         \<and> (\<forall>other. list_all (\<lambda>(nd, parent). other nd parent = replacer nd parent)
                        (visitedCalls replacer None (rootNode sf))
                \<longrightarrow> processTree sf other = processTree sf replacer)"
proof (intro conjI allI impI)
  show "processTree sf replacer
          = Inr (spliceFrom (sourceText sf) 0 (replacedSpans replacer None (rootNode sf)))"
    using assms by (rule visit_result)
  show "spansInOrder 0 (endPos (rootNode sf)) (replacedSpans replacer None (rootNode sf))"
    using spansInOrder_spans(1)[OF assms(1)] by (rule spansInOrder_weaken[rotated]) simp
  show "processTree sf other = processTree sf replacer"
    if "list_all (\<lambda>(nd, parent). other nd parent = replacer nd parent)
          (visitedCalls replacer None (rootNode sf))" for other
    using that by (rule processTree_agree)
qed

text \<open>
  The identity on the declaration file of the example, for a replacer that rewrites
  export declarations only: the file has none.
\<close>

theorem processTree_identity_witness:
  "parsed (rootNode exampleB)
   \<and> alwaysNull (\<lambda>nd parent. if kind nd = ExportDeclaration then Inr (Some ''export'') else Inr None)
        (replacerCalls None (rootNode exampleB))
   \<and> processTree exampleB
        (\<lambda>nd parent. if kind nd = ExportDeclaration then Inr (Some ''export'') else Inr None)
       = Inr exampleB_text"
proof -
  let ?r = "\<lambda>nd parent. if kind nd = ExportDeclaration then Inr (Some ''export'') else Inr None"
  have p: "parsed (rootNode exampleB)"
    by (simp add: exampleB_def exampleB_root_def)
  have a: "alwaysNull ?r (replacerCalls None (rootNode exampleB))"
    by (simp add: exampleB_def exampleB_root_def alwaysNull_def)
  from processTree_identity[OF p a] p a show ?thesis
    by (simp add: exampleB_def)
qed

text \<open>
  The contract on the declaration file of the example. A replacer that replaces the
  module reference and throws on every string literal returns on the calls of the
  traversal, though not on all nodes of the tree: the literal in the reference is never
  visited, the reference is replaced once, and a replacer that returns a string on the
  literal instead gives the same output. For the replacer of the module \<open>pkg/b\<close> the
  module reference and the \<open>declare\<close> keyword are the two replaced spans.
\<close>

theorem processTree_contract_witness:
  "parsed (rootNode exampleB)
   \<and> neverThrows exampleReplacer (visitedCalls exampleReplacer None (rootNode exampleB))
   \<and> \<not> neverThrows exampleReplacer (replacerCalls None (rootNode exampleB))
   \<and> replacedSpans exampleReplacer None (rootNode exampleB) = [(10, 25, '' require(0)'')]
   \<and> processTree exampleB exampleReplacer
       = Inr (''import a = require(0);\<newline>export declare var x: number;\<newline>'')
   \<and> list_all (\<lambda>(nd, parent).
                 (if kind nd = StringLiteral then Inr (Some ''1'') else exampleReplacer nd parent)
                   = exampleReplacer nd parent)
        (visitedCalls exampleReplacer None (rootNode exampleB))
   \<and> processTree exampleB
         (\<lambda>nd parent. if kind nd = StringLiteral then Inr (Some ''1'') else exampleReplacer nd parent)
       = Inr (''import a = require(0);\<newline>export declare var x: number;\<newline>'')
   \<and> neverThrows (writeDeclaration_replacer (exampleEnv [] None) ''pkg/b'')
        (visitedCalls (writeDeclaration_replacer (exampleEnv [] None) ''pkg/b'') None
           (rootNode exampleB))
   \<and> replacedSpans (writeDeclaration_replacer (exampleEnv [] None) ''pkg/b'') None (rootNode exampleB)
       = [(10, 25, '' require('' @ quoted ''pkg/a'' @ '')''), (33, 41, [])]
   \<and> processTree exampleB (writeDeclaration_replacer (exampleEnv [] None) ''pkg/b'')
       = Inr (''import a = require('' @ quoted ''pkg/a'' @ '');\<newline>export var x: number;\<newline>'')"
proof -
  let ?r = "writeDeclaration_replacer (exampleEnv [] None) ''pkg/b''"
  let ?o = "\<lambda>nd parent. if kind nd = StringLiteral then Inr (Some ''1'') else exampleReplacer nd parent"
  have p: "parsed (rootNode exampleB)"
    by (simp add: exampleB_def exampleB_root_def)
  have n': "neverThrows exampleReplacer (visitedCalls exampleReplacer None (rootNode exampleB))"
    by code_simp
  have f': "\<not> neverThrows exampleReplacer (replacerCalls None (rootNode exampleB))"
    by code_simp
  have s': "replacedSpans exampleReplacer None (rootNode exampleB) = [(10, 25, '' require(0)'')]"
    by code_simp
  have t': "spliceFrom (sourceText exampleB) 0 [(10, 25, '' require(0)'')]
           = ''import a = require(0);\<newline>export declare var x: number;\<newline>''"
    by code_simp
  have a: "list_all (\<lambda>(nd, parent). ?o nd parent = exampleReplacer nd parent)
             (visitedCalls exampleReplacer None (rootNode exampleB))"
    by code_simp
  have n: "neverThrows ?r (visitedCalls ?r None (rootNode exampleB))"
    by code_simp
  have s: "replacedSpans ?r None (rootNode exampleB)
             = [(10, 25, '' require('' @ quoted ''pkg/a'' @ '')''), (33, 41, [])]"
    by code_simp
  have t: "spliceFrom (sourceText exampleB) 0
             [(10, 25, '' require('' @ quoted ''pkg/a'' @ '')''), (33, 41, [])]
           = ''import a = require('' @ quoted ''pkg/a'' @ '');\<newline>export var x: number;\<newline>''"
    by code_simp
  note th = processTree_contract[OF p n']
  from th have 1: "processTree exampleB exampleReplacer
       = Inr (''import a = require(0);\<newline>export declare var x: number;\<newline>'')"
    unfolding s' t' by blast
  have "processTree exampleB ?o = processTree exampleB exampleReplacer"
    by (rule th[THEN conjunct2, THEN conjunct2, rule_format, of ?o, OF a])
  with 1 have 2: "processTree exampleB ?o
       = Inr (''import a = require(0);\<newline>export declare var x: number;\<newline>'')"
    by simp
  from processTree_contract[OF p n] have 3: "processTree exampleB ?r
       = Inr (''import a = require('' @ quoted ''pkg/a'' @ '');\<newline>export var x: number;\<newline>'')"
    unfolding s t by blast
  from p n' f' s' 1 a 2 n s 3 show ?thesis
    by blast
qed


section \<open>The module identifier and the defaults\<close>

lemma slice_strip:
  "slice (pre @ rel @ ''.d.ts'') (int (length pre)) (Some (- 5)) = rel"
  by (simp add: slice_def Let_def)

text \<open>
  Claim C4. For a declaration file whose name is the base directory, a relative path
  and the suffix \<open>.d.ts\<close>, the module identifier is the package name followed by the
  relative path, with every path separator turned into a forward slash. The witness is
  the example of the specification: base \<open>/pkg/src\<close>, file \<open>/pkg/src/a/b.d.ts\<close> and package
  \<open>lib\<close> give \<open>lib/a/b\<close>.
\<close>

theorem sourceModuleId_strips:
  assumes "filename = generate_baseDir ev opts @ rel @ ''.d.ts''"
  shows "sourceModuleId ev opts filename = name opts @ filenameToMid (pathModule ev) rel
         \<and> filenameToMid (pathModule ev) rel
             = map (\<lambda>c. if c = sep (pathModule ev) then CHR ''/'' else c) rel"
proof
  show "sourceModuleId ev opts filename = name opts @ filenameToMid (pathModule ev) rel"
    unfolding sourceModuleId_def assms by (simp only: slice_strip)
  show "filenameToMid (pathModule ev) rel
          = map (\<lambda>c. if c = sep (pathModule ev) then CHR ''/'' else c) rel"
    by (simp add: filenameToMid_def replace_char_def map_idI)
qed

text \<open>
  The module identifier of \<open>/pkg/src/a/b.d.ts\<close> in the package \<open>lib\<close> with base \<open>/pkg/src\<close>.
\<close>

theorem sourceModuleId_strips_witness:
  "generate_baseDir (exampleEnv [] None) (exampleOptions\<lparr>name := ''lib''\<rparr>) = ''/pkg/src''
   \<and> sourceModuleId (exampleEnv [] None) (exampleOptions\<lparr>name := ''lib''\<rparr>) ''/pkg/src/a/b.d.ts''
       = ''lib/a/b''"
proof -
  let ?ev = "exampleEnv [] None" and ?opts = "exampleOptions\<lparr>name := ''lib''\<rparr>"
  have b: "generate_baseDir ?ev ?opts = ''/pkg/src''"
    by code_simp
  then have f: "''/pkg/src/a/b.d.ts'' = generate_baseDir ?ev ?opts @ ''/a/b'' @ ''.d.ts''"
    by simp
  have s: "sep (pathModule ?ev) = CHR ''/''"
    by (simp add: exampleEnv_def posix_def)
  from sourceModuleId_strips[OF f] s b show ?thesis
    by (simp add: exampleOptions_def map_idI)
qed

text \<open>
  Claim C10. The defaults of \<open>eol\<close> and \<open>indent\<close> differ: an empty \<open>eol\<close> is replaced by the
  end of line of the platform, as an absent one is, and only a non-empty \<open>eol\<close> is kept;
  an empty \<open>indent\<close> is kept, as every given \<open>indent\<close> is, and only an absent one becomes
  one tab.
\<close>

theorem eol_indent_defaults:
  "generate_eol ev (opts\<lparr>eol := Some []\<rparr>) = osEOL ev
   \<and> generate_eol ev (opts\<lparr>eol := None\<rparr>) = osEOL ev
   \<and> (e \<noteq> [] \<longrightarrow> generate_eol ev (opts\<lparr>eol := Some e\<rparr>) = e)
   \<and> generate_indent (opts\<lparr>indent := Some []\<rparr>) = []
   \<and> generate_indent (opts\<lparr>indent := Some i\<rparr>) = i
   \<and> generate_indent (opts\<lparr>indent := None\<rparr>) = [CHR 0x09]"
  by (simp add: generate_eol_def generate_indent_def)

text \<open>
  The defaults on the options of the example, where the platform's end of line is a
  line feed.
\<close>

theorem eol_indent_defaults_witness:
  "generate_eol (exampleEnv [] None) (exampleOptions\<lparr>eol := Some []\<rparr>) = ''\<newline>''
   \<and> generate_eol (exampleEnv [] None) (exampleOptions\<lparr>eol := None\<rparr>) = ''\<newline>''
   \<and> generate_eol (exampleEnv [] None) (exampleOptions\<lparr>eol := Some [CHR 0x0D, CHR 0x0A]\<rparr>)
       = [CHR 0x0D, CHR 0x0A]
   \<and> generate_indent (exampleOptions\<lparr>indent := Some []\<rparr>) = []
   \<and> generate_indent (exampleOptions\<lparr>indent := Some ''    ''\<rparr>) = ''    ''
   \<and> generate_indent (exampleOptions\<lparr>indent := None\<rparr>) = [CHR 0x09]"
  using eol_indent_defaults[of "exampleEnv [] None" exampleOptions "[CHR 0x0D, CHR 0x0A]" "''    ''"]
  by (simp add: exampleEnv_def)


lemma writeDeclaration_script:
  "\<not> externalModuleIndicator f \<Longrightarrow>
     writeDeclaration ev opts f b = Inr (b\<lparr>outputString := outputString b @ sourceText f\<rparr>)"
  by (simp add: writeDeclaration_def Let_def)

lemma hoist_outputString:
  "outputString (foldl (hoistReference ev opts p filename) b refs) = outputString b"
  by (induction refs arbitrary: b) (simp_all add: hoistReference_def Let_def)

lemma writeDeclaration_module:
  assumes "externalModuleIndicator f"
    and "processTree f (writeDeclaration_replacer ev (sourceModuleId ev opts (fileName f))) = Inr content"
  shows "\<exists>b'. writeDeclaration ev opts f b = Inr b'
           \<and> outputString b'
               = outputString b @ ''declare module '' @ quoted (sourceModuleId ev opts (fileName f))
                   @ '' {'' @ generate_eol ev opts @ generate_indent opts
                   @ indentContent ev opts content
                   @ generate_eol ev opts @ ''}'' @ generate_eol ev opts"
  using assms
  by (cases "generate_outputRefPath opts")
     (simp_all add: writeDeclaration_def Let_def hoist_outputString)

text \<open>
  Claim C5. \<open>writeDeclaration\<close> appends the text of a unit that is not an external
  module to the main buffer, unchanged, and changes nothing else. For an external module
  whose rewriting returns \<open>content\<close> it appends \<open>declare module '<identifier>' {\<close>, the
  indented content and the closing brace. The indented content is what
  \<open>content.replace(nonEmptyLineStart, '$&' + indent)\<close> gives; where the end of line has no
  syntax character of regular expressions and the indent has no \<open>$\<close>, it is the content
  with the indent put after each end of line that neither another end of line nor the
  end of the content follows. In the rewriting, the specifier of an external
  module reference, and a string literal under an import or export declaration, is
  replaced when it begins with \<open>.\<close>: by the join of the directory of the unit's module
  identifier with the specifier; any other specifier is left as it is.
\<close>

theorem writeDeclaration_unit:
  "(\<not> externalModuleIndicator f \<longrightarrow>
      writeDeclaration ev opts f b = Inr (b\<lparr>outputString := outputString b @ sourceText f\<rparr>))
   \<and> (externalModuleIndicator f \<longrightarrow>
        processTree f (writeDeclaration_replacer ev (sourceModuleId ev opts (fileName f))) = Inr content \<longrightarrow>
        (\<exists>b'. writeDeclaration ev opts f b = Inr b'
           \<and> outputString b'
               = outputString b @ ''declare module '' @ quoted (sourceModuleId ev opts (fileName f))
                   @ '' {'' @ generate_eol ev opts @ generate_indent opts
                   @ indentContent ev opts content
                   @ generate_eol ev opts @ ''}'' @ generate_eol ev opts))
   \<and> (literalPattern (generate_eol ev opts) \<longrightarrow> literalReplacement (generate_indent opts) \<longrightarrow>
        indentContent ev opts content
          = replace_nonEmptyLineStart (generate_eol ev opts) (generate_indent opts) content)
   \<and> (kind nd = ExternalModuleReference \<longrightarrow> children nd = expression # others \<longrightarrow>
        nodeText expression = Some t \<longrightarrow>
        writeDeclaration_replacer ev moduleId nd parent
          = (if charAt0_is t (CHR ''.'')
             then Inr (Some ('' require(''
                    @ quoted (filenameToMid (pathModule ev)
                        (joinPath (pathModule ev) [dirname (pathModule ev) moduleId, t]))
                    @ '')''))
             else Inr None))
   \<and> (kind nd = StringLiteral \<longrightarrow> parent = Some par \<longrightarrow>
        kind par = ExportDeclaration \<or> kind par = ImportDeclaration \<longrightarrow>
        nodeText nd = Some t \<longrightarrow>
        writeDeclaration_replacer ev moduleId nd parent
          = (if charAt0_is t (CHR ''.'')
             then Inr (Some ('' ''
                    @ quoted (filenameToMid (pathModule ev)
                        (joinPath (pathModule ev) [dirname (pathModule ev) moduleId, t]))))
             else Inr None))"
proof (intro conjI impI)
  assume "\<not> externalModuleIndicator f"
  then show "writeDeclaration ev opts f b = Inr (b\<lparr>outputString := outputString b @ sourceText f\<rparr>)"
    by (rule writeDeclaration_script)
next
  assume "externalModuleIndicator f"
    and "processTree f (writeDeclaration_replacer ev (sourceModuleId ev opts (fileName f))) = Inr content"
  then show "\<exists>b'. writeDeclaration ev opts f b = Inr b'
           \<and> outputString b'
               = outputString b @ ''declare module '' @ quoted (sourceModuleId ev opts (fileName f))
                   @ '' {'' @ generate_eol ev opts @ generate_indent opts
                   @ indentContent ev opts content
                   @ generate_eol ev opts @ ''}'' @ generate_eol ev opts"
    by (rule writeDeclaration_module)
next
  assume "literalPattern (generate_eol ev opts)" "literalReplacement (generate_indent opts)"
  then show "indentContent ev opts content
          = replace_nonEmptyLineStart (generate_eol ev opts) (generate_indent opts) content"
    by (simp add: indentContent_def)
next
  assume "kind nd = ExternalModuleReference" "children nd = expression # others"
    "nodeText expression = Some t"
  then show "writeDeclaration_replacer ev moduleId nd parent
          = (if charAt0_is t (CHR ''.'')
             then Inr (Some ('' require(''
                    @ quoted (filenameToMid (pathModule ev)
                        (joinPath (pathModule ev) [dirname (pathModule ev) moduleId, t]))
                    @ '')''))
             else Inr None)"
    by (simp add: writeDeclaration_replacer_def relativeToMid_def)
next
  assume "kind nd = StringLiteral" "parent = Some par"
    "kind par = ExportDeclaration \<or> kind par = ImportDeclaration" "nodeText nd = Some t"
  then show "writeDeclaration_replacer ev moduleId nd parent
          = (if charAt0_is t (CHR ''.'')
             then Inr (Some ('' ''
                    @ quoted (filenameToMid (pathModule ev)
                        (joinPath (pathModule ev) [dirname (pathModule ev) moduleId, t]))))
             else Inr None)"
    by (auto simp: writeDeclaration_replacer_def relativeToMid_def)
qed


text \<open>
  The example of the specification, where the end of line is a line feed and the indent
  two spaces: the script \<open>a.d.ts\<close> is copied, and the unit \<open>b\<close> of the
  package \<open>pkg\<close>, which imports \<open>./a\<close>, becomes a block \<open>declare module 'pkg/b'\<close> whose
  import is \<open>'pkg/a'\<close>.
\<close>

theorem writeDeclaration_unit_witness:
  "writeDeclaration (exampleEnv [] None) exampleOptions exampleA
       \<lparr>outputString = ''// bundle\<newline>'', outputRefString = [], wroteToOutputRef = False\<rparr>
     = Inr \<lparr>outputString = ''// bundle\<newline>declare var g: number;\<newline>'', outputRefString = [],
             wroteToOutputRef = False\<rparr>
   \<and> sourceModuleId (exampleEnv [] None) exampleOptions (fileName exampleB) = ''pkg/b''
   \<and> literalPattern (generate_eol (exampleEnv [] None) exampleOptions)
   \<and> literalReplacement (generate_indent exampleOptions)
   \<and> (case writeDeclaration (exampleEnv [] None) exampleOptions exampleB
              \<lparr>outputString = ''// bundle\<newline>'', outputRefString = [], wroteToOutputRef = False\<rparr> of
         Inl err \<Rightarrow> None
       | Inr b' \<Rightarrow> Some (outputString b'))
     = Some (''// bundle\<newline>declare module '' @ quoted ''pkg/b'' @ '' {\<newline>  import a = require(''
               @ quoted ''pkg/a'' @ '');\<newline>  export var x: number;\<newline>\<newline>}\<newline>'')
   \<and> writeDeclaration_replacer (exampleEnv [] None) ''pkg/b''
        (Node ExternalModuleReference 10 25 None [Node StringLiteral 19 24 (Some ''./a'') []])
        (Some (Node (OtherKind 1) 0 26 None []))
     = Inr (Some ('' require('' @ quoted ''pkg/a'' @ '')''))
   \<and> writeDeclaration_replacer (exampleEnv [] None) ''pkg/b''
        (Node StringLiteral 18 24 (Some ''./a'') [])
        (Some (Node ImportDeclaration 0 25 None []))
     = Inr (Some ('' '' @ quoted ''pkg/a''))"
proof -
  let ?ev = "exampleEnv [] None"
  let ?b = "\<lparr>outputString = ''// bundle\<newline>'', outputRefString = [], wroteToOutputRef = False\<rparr>"
  let ?content = "''import a = require('' @ quoted ''pkg/a'' @ '');\<newline>export var x: number;\<newline>''"
  let ?ref = "Node ExternalModuleReference 10 25 None [Node StringLiteral 19 24 (Some ''./a'') []]"
  let ?lit = "Node StringLiteral 18 24 (Some ''./a'') []"
  let ?imp = "Node ImportDeclaration 0 25 None []"
  have a: "\<not> externalModuleIndicator exampleA" by (simp add: exampleA_def)
  have e: "externalModuleIndicator exampleB" by (simp add: exampleB_def)
  have m: "sourceModuleId ?ev exampleOptions (fileName exampleB) = ''pkg/b''" by code_simp
  have c: "processTree exampleB (writeDeclaration_replacer ?ev (sourceModuleId ?ev exampleOptions (fileName exampleB)))
             = Inr ?content"
    by code_simp
  have i: "generate_eol ?ev exampleOptions = ''\<newline>''" "generate_indent exampleOptions = ''  ''"
    by code_simp+
  have l: "literalPattern (generate_eol ?ev exampleOptions)"
    "literalReplacement (generate_indent exampleOptions)"
    by code_simp+
  have r: "replace_nonEmptyLineStart ''\<newline>'' ''  '' ?content
             = ''import a = require('' @ quoted ''pkg/a'' @ '');\<newline>  export var x: number;\<newline>''"
    by code_simp
  have j: "filenameToMid (pathModule ?ev) (joinPath (pathModule ?ev) [dirname (pathModule ?ev) ''pkg/b'', ''./a''])
             = ''pkg/a''"
    by code_simp
  note u = writeDeclaration_unit[where ev = ?ev and opts = exampleOptions and b = ?b and t = "''./a''"
             and moduleId = "''pkg/b''" and content = ?content]
  from u[where f = exampleA] a
  have 1: "writeDeclaration ?ev exampleOptions exampleA ?b
             = Inr \<lparr>outputString = ''// bundle\<newline>declare var g: number;\<newline>'', outputRefString = [],
                     wroteToOutputRef = False\<rparr>"
    by (simp add: exampleA_def)
  from u[where f = exampleB] e c obtain b' where
    "writeDeclaration ?ev exampleOptions exampleB ?b = Inr b'"
    "outputString b' = outputString ?b @ ''declare module '' @ quoted (sourceModuleId ?ev exampleOptions (fileName exampleB))
                   @ '' {'' @ generate_eol ?ev exampleOptions @ generate_indent exampleOptions
                   @ indentContent ?ev exampleOptions ?content
                   @ generate_eol ?ev exampleOptions @ ''}'' @ generate_eol ?ev exampleOptions"
    "indentContent ?ev exampleOptions ?content
       = replace_nonEmptyLineStart (generate_eol ?ev exampleOptions) (generate_indent exampleOptions) ?content"
    using l by blast
  then have "writeDeclaration ?ev exampleOptions exampleB ?b = Inr b'"
    "outputString b' = ''// bundle\<newline>declare module '' @ quoted ''pkg/b'' @ '' {\<newline>  import a = require(''
               @ quoted ''pkg/a'' @ '');\<newline>  export var x: number;\<newline>\<newline>}\<newline>''"
    unfolding m i r by (simp_all add: quoted_def r)
  then have 2: "(case writeDeclaration ?ev exampleOptions exampleB ?b of
         Inl err \<Rightarrow> None
       | Inr b' \<Rightarrow> Some (outputString b'))
     = Some (''// bundle\<newline>declare module '' @ quoted ''pkg/b'' @ '' {\<newline>  import a = require(''
               @ quoted ''pkg/a'' @ '');\<newline>  export var x: number;\<newline>\<newline>}\<newline>'')"
    by simp
  from u[where nd = ?ref and expression = "Node StringLiteral 19 24 (Some ''./a'') []" and others = "[]"
           and parent = "Some (Node (OtherKind 1) 0 26 None [])"]
  have 3: "writeDeclaration_replacer ?ev ''pkg/b'' ?ref (Some (Node (OtherKind 1) 0 26 None []))
             = Inr (Some ('' require('' @ quoted ''pkg/a'' @ '')''))"
    by (simp add: j)
  from u[where nd = ?lit and parent = "Some ?imp" and par = ?imp]
  have 4: "writeDeclaration_replacer ?ev ''pkg/b'' ?lit (Some ?imp) = Inr (Some ('' '' @ quoted ''pkg/a''))"
    by (simp add: j)
  from 1 m l 2 3 4 show ?thesis by blast
qed


section \<open>The buffers during a run\<close>

lemma referenceLine_nonempty: "referenceLine p e \<noteq> []"
  by (simp add: referenceLine_def)

lemma hoistReference_fields:
  "wroteToOutputRef (hoistReference ev opts p filename b r)"
  "outputRefString (hoistReference ev opts p filename b r) \<noteq> []"
  "outputString (hoistReference ev opts p filename b r) = outputString b"
  by (simp_all add: hoistReference_def Let_def referenceLine_nonempty)

lemma hoist_refInvariant:
  "refInvariant b \<Longrightarrow> refInvariant (foldl (hoistReference ev opts p filename) b refs)"
proof (induction refs arbitrary: b)
  case Nil
  then show ?case by simp
next
  case (Cons r refs)
  have "refInvariant (hoistReference ev opts p filename b r)"
    by (simp add: refInvariant_def hoistReference_fields)
  then show ?case using Cons.IH by simp
qed

text \<open>What \<open>writeDeclaration\<close> does to the buffers, when it returns.\<close>

lemma writeDeclaration_Inr:
  assumes "writeDeclaration ev opts f b = Inr b'"
  shows "outputString b' = outputString b @ declarationBlock ev opts f"
    and "refInvariant b \<Longrightarrow> refInvariant b'"
    and "wroteToOutputRef b' \<Longrightarrow> \<not> wroteToOutputRef b \<Longrightarrow> generate_outputRefPath opts \<noteq> None"
proof -
  show "outputString b' = outputString b @ declarationBlock ev opts f"
    using assms
    by (cases "generate_outputRefPath opts")
       (auto simp: writeDeclaration_def declarationBlock_def Let_def hoist_outputString
             split: if_splits sum.splits)
  show "refInvariant b'" if "refInvariant b"
    using assms that hoist_refInvariant[OF that, of ev opts _ "fileName f" "referencedFiles f"]
    by (cases "generate_outputRefPath opts")
       (auto simp: writeDeclaration_def Let_def refInvariant_def split: if_splits sum.splits)
  show "generate_outputRefPath opts \<noteq> None" if "wroteToOutputRef b'" "\<not> wroteToOutputRef b"
    using assms that
    by (cases "generate_outputRefPath opts")
       (auto simp: writeDeclaration_def Let_def split: if_splits sum.splits)
qed


lemma writeFile_Inr:
  assumes "writeFile ev opts b call = Inr b'"
  shows "outputString b' = outputString b @ unitBlock_call ev opts call"
    and "refInvariant b \<Longrightarrow> refInvariant b'"
    and "wroteToOutputRef b' \<Longrightarrow> \<not> wroteToOutputRef b \<Longrightarrow> generate_outputRefPath opts \<noteq> None"
  using assms writeDeclaration_Inr[of ev opts _ b b']
  by (auto simp: writeFile_def unitBlock_call_def split: prod.splits if_splits)

lemma writeFiles_Inr:
  assumes "writeFiles ev opts calls b = Inr b'"
  shows "outputString b' = outputString b @ concat (map (unitBlock_call ev opts) calls)"
    and "refInvariant b \<Longrightarrow> refInvariant b'"
    and "wroteToOutputRef b' \<Longrightarrow> \<not> wroteToOutputRef b \<Longrightarrow> generate_outputRefPath opts \<noteq> None"
  using assms
proof (induction calls arbitrary: b)
  case Nil
  { case 1 then show ?case by simp }
  { case 2 then show ?case by simp }
  { case 3 then show ?case by simp }
next
  case (Cons call calls)
  { case 1
    then obtain b1 where w: "writeFile ev opts b call = Inr b1" and r: "writeFiles ev opts calls b1 = Inr b'"
      by (auto split: sum.splits)
    show ?case using writeFile_Inr(1)[OF w] Cons.IH(1)[OF r] by simp }
  { case 2
    then obtain b1 where w: "writeFile ev opts b call = Inr b1" and r: "writeFiles ev opts calls b1 = Inr b'"
      by (auto split: sum.splits)
    show ?case using writeFile_Inr(2)[OF w] Cons.IH(2)[OF _ r] 2 by simp }
  { case 3
    then obtain b1 where w: "writeFile ev opts b call = Inr b1" and r: "writeFiles ev opts calls b1 = Inr b'"
      by (auto split: sum.splits)
    show ?case using writeFile_Inr(3)[OF w] Cons.IH(3)[OF _ _ r] 3 by blast }
qed


lemma someSourceFile_Inr:
  assumes "someSourceFile ev opts prog units b = Inr (b', rej)"
  shows "rej = firstFailure ev opts prog units
         \<and> outputString b'
             = outputString b @ concat (map (unitBlock ev opts prog) (unitsReached ev opts prog units))"
    and "refInvariant b \<Longrightarrow> refInvariant b'"
    and "wroteToOutputRef b' \<Longrightarrow> \<not> wroteToOutputRef b \<Longrightarrow> generate_outputRefPath opts \<noteq> None"
  using assms
proof (induction units arbitrary: b)
  case Nil
  { case 1 then show ?case by simp }
  { case 2 then show ?case by simp }
  { case 3 then show ?case by simp }
next
  case (Cons sf sfs)
  have step: "rej = firstFailure ev opts prog (sf # sfs)
         \<and> outputString b'
             = outputString b0
                 @ concat (map (unitBlock ev opts prog) (unitsReached ev opts prog (sf # sfs)))"
    if r: "someSourceFile ev opts prog sfs b1 = Inr (b', rej)"
      and o: "outputString b1 = outputString b0 @ unitBlock ev opts prog sf"
      and f: "\<not> emitFails ev opts prog sf" for b0 :: buffers and b1
    using Cons.IH(1)[OF r] o f by simp
  consider (over) "passedOver ev opts sf"
    | (decl) "\<not> passedOver ev opts sf" "slice (fileName sf) (- 5) None = ''.d.ts''"
    | (emit) "\<not> passedOver ev opts sf" "slice (fileName sf) (- 5) None \<noteq> ''.d.ts''"
    by blast
  note cases3 = this
  { case 1
    show ?case
    proof (cases rule: cases3)
      case over
      then have "someSourceFile ev opts prog sfs b = Inr (b', rej)" using 1 by simp
      moreover have "outputString b = outputString b @ unitBlock ev opts prog sf"
        using over by (simp add: unitBlock_def)
      moreover have "\<not> emitFails ev opts prog sf"
        using over by (simp add: emitFails_def)
      ultimately show ?thesis by (rule step)
    next
      case decl
      then obtain b1 where w: "writeDeclaration ev opts sf b = Inr b1"
        and r: "someSourceFile ev opts prog sfs b1 = Inr (b', rej)"
        using 1 by (auto split: sum.splits)
      have "outputString b1 = outputString b @ unitBlock ev opts prog sf"
        using decl writeDeclaration_Inr(1)[OF w] by (simp add: unitBlock_def)
      moreover have "\<not> emitFails ev opts prog sf"
        using decl by (simp add: emitFails_def)
      ultimately show ?thesis using r by (intro step)
    next
      case emit
      then obtain b1 where w: "writeFiles ev opts (writeFileCalls (program.emit prog sf)) b = Inr b1"
        using 1 by (auto split: sum.splits)
      have o: "outputString b1 = outputString b @ unitBlock ev opts prog sf"
        using emit writeFiles_Inr(1)[OF w] by (simp add: unitBlock_def)
      show ?thesis
      proof (cases "emitSkipped (program.emit prog sf) \<or> diagnostics (program.emit prog sf) \<noteq> []")
        case True
        then have "b' = b1" "rej = Some (emitError prog sf)" using 1 emit w by auto
        moreover have "emitFails ev opts prog sf"
          using True emit by (simp add: emitFails_def)
        ultimately show ?thesis using o by simp
      next
        case False
        then have "someSourceFile ev opts prog sfs b1 = Inr (b', rej)" using 1 emit w by auto
        moreover have "\<not> emitFails ev opts prog sf"
          using False by (simp add: emitFails_def)
        ultimately show ?thesis using o by (intro step)
      qed
    qed }
  { case 2
    show ?case
    proof (cases rule: cases3)
      case over
      then show ?thesis using 2 Cons.IH(2) by simp
    next
      case decl
      then obtain b1 where w: "writeDeclaration ev opts sf b = Inr b1"
        and r: "someSourceFile ev opts prog sfs b1 = Inr (b', rej)"
        using 2 by (auto split: sum.splits)
      show ?thesis using writeDeclaration_Inr(2)[OF w] Cons.IH(2)[OF _ r] 2 by simp
    next
      case emit
      then obtain b1 where w: "writeFiles ev opts (writeFileCalls (program.emit prog sf)) b = Inr b1"
        using 2 by (auto split: sum.splits)
      have i: "refInvariant b1" using writeFiles_Inr(2)[OF w] 2 by simp
      show ?thesis
      proof (cases "emitSkipped (program.emit prog sf) \<or> diagnostics (program.emit prog sf) \<noteq> []")
        case True
        then have "b' = b1" using 2 emit w by auto
        then show ?thesis using i by simp
      next
        case False
        then have "someSourceFile ev opts prog sfs b1 = Inr (b', rej)" using 2 emit w by auto
        then show ?thesis using Cons.IH(2)[OF i] by simp
      qed
    qed }
  { case 3
    show ?case
    proof (cases rule: cases3)
      case over
      then show ?thesis using 3 Cons.IH(3) by simp
    next
      case decl
      then obtain b1 where w: "writeDeclaration ev opts sf b = Inr b1"
        and r: "someSourceFile ev opts prog sfs b1 = Inr (b', rej)"
        using 3 by (auto split: sum.splits)
      show ?thesis using writeDeclaration_Inr(3)[OF w] Cons.IH(3)[OF _ _ r] 3 by blast
    next
      case emit
      then obtain b1 where w: "writeFiles ev opts (writeFileCalls (program.emit prog sf)) b = Inr b1"
        using 3 by (auto split: sum.splits)
      show ?thesis
      proof (cases "emitSkipped (program.emit prog sf) \<or> diagnostics (program.emit prog sf) \<noteq> []")
        case True
        then have "b' = b1" using 3 emit w by auto
        then show ?thesis using writeFiles_Inr(3)[OF w] 3 by simp
      next
        case False
        then have "someSourceFile ev opts prog sfs b1 = Inr (b', rej)" using 3 emit w by auto
        then show ?thesis using writeFiles_Inr(3)[OF w] Cons.IH(3) 3 by blast
      qed
    qed }
qed

lemma unitsReached_first:
  "emitFails ev opts prog failing \<Longrightarrow>
     unitsReached ev opts prog (before @ failing # remaining)
       = unitsReached ev opts prog (before @ [failing])"
  "emitFails ev opts prog failing \<Longrightarrow> list_all (\<lambda>u. \<not> emitFails ev opts prog u) before \<Longrightarrow>
     unitsReached ev opts prog (before @ [failing]) = before @ [failing]
     \<and> firstFailure ev opts prog (before @ failing # remaining) = Some (emitError prog failing)"
  "list_all (\<lambda>u. \<not> emitFails ev opts prog u) units \<Longrightarrow>
     unitsReached ev opts prog units = units \<and> firstFailure ev opts prog units = None"
  "firstFailure ev opts prog units = None \<Longrightarrow> unitsReached ev opts prog units = units"
proof -
  show "unitsReached ev opts prog (before @ failing # remaining)
       = unitsReached ev opts prog (before @ [failing])" if "emitFails ev opts prog failing"
    using that by (induction before) simp_all
  show "unitsReached ev opts prog (before @ [failing]) = before @ [failing]
     \<and> firstFailure ev opts prog (before @ failing # remaining) = Some (emitError prog failing)"
    if "emitFails ev opts prog failing" "list_all (\<lambda>u. \<not> emitFails ev opts prog u) before"
    using that by (induction before) simp_all
  show "unitsReached ev opts prog units = units \<and> firstFailure ev opts prog units = None"
    if "list_all (\<lambda>u. \<not> emitFails ev opts prog u) units"
    using that by (induction units) simp_all
  show "unitsReached ev opts prog units = units" if "firstFailure ev opts prog units = None"
    using that by (induction units) (simp_all split: if_splits)
qed


section \<open>The outcome of a run\<close>

lemma someSourceFile_stops:
  assumes "emitFails ev opts prog failing"
  shows "someSourceFile ev opts prog (before @ failing # remaining) b
           = someSourceFile ev opts prog (before @ [failing]) b"
    and "someSourceFile ev opts prog (before @ failing # remaining) b \<noteq> Inr (b', None)"
  using assms
  by (induction before arbitrary: b) (auto simp: emitFails_def split: sum.splits)

lemma foldl_append_concat:
  "foldl (\<lambda>s p. s @ f p) acc xs = acc @ concat (map f xs)"
  by (induction xs arbitrary: acc) simp_all

lemma externLines_concat:
  "externLines ev opts
     = concat (map (\<lambda>p. referenceLine p (generate_eol ev opts))
                   (case externs opts of None \<Rightarrow> [] | Some xs \<Rightarrow> xs))"
  by (simp add: externLines_def foldl_append_concat split: option.splits)

lemma generate_buffers_Inr:
  assumes "generate_buffers ev opts = Inr (b, rej)"
  obtains b1 where
    "someSourceFile ev opts (generate_program ev opts) (getSourceFiles (generate_program ev opts))
       \<lparr>outputString = externLines ev opts, outputRefString = [], wroteToOutputRef = False\<rparr>
     = Inr (b1, rej)"
    "wroteToOutputRef b = wroteToOutputRef b1"
    "outputRefString b = outputRefString b1"
    "outputString b
       = (if wroteToOutputRef b1
          then referenceLine (case generate_outputRefPath opts of None \<Rightarrow> ''undefined'' | Some p \<Rightarrow> p)
                 (generate_eol ev opts)
          else [])
         @ outputString b1 @ mainAlias ev opts"
    "generate_nonEmptyLineStart_error ev opts = None"
  using assms
  by (auto simp: generate_buffers_def Let_def split: sum.splits prod.splits if_splits option.splits)

lemma slice_drop_suffix_length: "length (slice s 0 (Some (- 5))) = length s - 5"
  by (simp add: slice_def Let_def)

lemma outputRefPath_differs:
  assumes "generate_outputRefPath opts = Some p"
  shows "p \<noteq> out opts"
proof -
  from assms have s: "slice (out opts) (- 5) None = ''.d.ts''"
    and p: "p = slice (out opts) 0 (Some (- 5)) @ ''.ref.d.ts''"
    by (auto simp: generate_outputRefPath_def split: if_splits)
  have "length (slice (out opts) (- 5) None) \<le> length (out opts)"
    by (simp add: slice_def Let_def)
  with s have "5 \<le> length (out opts)" by simp
  then have "length p = length (out opts) + 4"
    using p by (simp add: slice_drop_suffix_length)
  then show ?thesis by auto
qed

lemma generate_buffers_compiles:
  "generate_buffers ev opts = Inr r \<Longrightarrow> generate_nonEmptyLineStart_error ev opts = None"
  by (auto simp: generate_buffers_def split: option.splits)

lemma generate_storage_main:
  assumes "generate_buffers ev opts = Inr (b, rej)"
  shows "storage (generate ev opts) (out opts) = Some (outputString b)"
  using assms outputRefPath_differs[of opts] generate_buffers_compiles[OF assms]
  by (auto simp: generate_def Let_def split: option.splits)

lemma generate_promise:
  assumes "generate_buffers ev opts = Inr (b, rej)"
  shows "promise (generate ev opts)
           = settle rej
               (case generate_outputRefPath opts of
                  None \<Rightarrow> Resolved
                | Some p \<Rightarrow>
                    if wroteToOutputRef b then Resolved
                    else (case unlinkAnswer ev p of None \<Rightarrow> Resolved | Some err \<Rightarrow> Rejected err))"
  using assms generate_buffers_compiles[OF assms]
  by (auto simp: generate_def Let_def split: option.splits)

lemma generate_storage_auxiliary:
  assumes "generate_buffers ev opts = Inr (b, rej)" and "generate_outputRefPath opts = Some p"
  shows "storage (generate ev opts) p = auxiliaryFile ev p b"
  using assms outputRefPath_differs[OF assms(2)] generate_buffers_compiles[OF assms(1)]
  by (auto simp: generate_def Let_def auxiliaryFile_def unlinkAnswer_def split: option.splits)

lemma generate_buffers_refInvariant:
  assumes "generate_buffers ev opts = Inr (b, rej)"
  shows "refInvariant b" and "wroteToOutputRef b \<Longrightarrow> generate_outputRefPath opts \<noteq> None"
proof -
  from assms obtain b1 where
    s: "someSourceFile ev opts (generate_program ev opts) (getSourceFiles (generate_program ev opts))
       \<lparr>outputString = externLines ev opts, outputRefString = [], wroteToOutputRef = False\<rparr>
     = Inr (b1, rej)"
    and w: "wroteToOutputRef b = wroteToOutputRef b1" "outputRefString b = outputRefString b1"
    by (rule generate_buffers_Inr)
  have "refInvariant b1"
    using someSourceFile_Inr(2)[OF s] by (simp add: refInvariant_def)
  then show "refInvariant b" using w by (simp add: refInvariant_def)
  show "generate_outputRefPath opts \<noteq> None" if "wroteToOutputRef b"
    using someSourceFile_Inr(3)[OF s] that w by simp
qed


text \<open>
  Claim C6, amended. When a main module is requested (\<open>options.main\<close> is a non-empty
  string \<open>m\<close>), the main buffer ends with a block that declares the package name as a
  module which imports \<open>main = require('m')\<close> and exports it. The module is named by
  \<open>options.main\<close> as it is given: it is not resolved against the package name. The main
  buffer is what the run writes to the main file.
\<close>

theorem main_alias:
  assumes "main opts = Some m" and "m \<noteq> []"
    and "generate_buffers ev opts = Inr (b, rejected)"
  shows "suffix (''declare module '' @ quoted (name opts) @ '' {''
                   @ generate_eol ev opts @ generate_indent opts
                 @ ''import main = require('' @ quoted m @ '');''
                   @ generate_eol ev opts @ generate_indent opts
                 @ ''export = main;'' @ generate_eol ev opts
                 @ ''}'' @ generate_eol ev opts)
                (outputString b)
         \<and> storage (generate ev opts) (out opts) = Some (outputString b)"
proof
  from assms(3) obtain b1 :: buffers where
    "outputString b
       = (if wroteToOutputRef b1
          then referenceLine (case generate_outputRefPath opts of None \<Rightarrow> ''undefined'' | Some p \<Rightarrow> p)
                 (generate_eol ev opts)
          else [])
         @ outputString b1 @ mainAlias ev opts"
    by (rule generate_buffers_Inr)
  then have "suffix (mainAlias ev opts) (outputString b)"
    by (metis append.assoc suffixI)
  then show "suffix (''declare module '' @ quoted (name opts) @ '' {''
                   @ generate_eol ev opts @ generate_indent opts
                 @ ''import main = require('' @ quoted m @ '');''
                   @ generate_eol ev opts @ generate_indent opts
                 @ ''export = main;'' @ generate_eol ev opts
                 @ ''}'' @ generate_eol ev opts)
                (outputString b)"
    using assms(1,2) by (simp add: mainAlias_def)
  show "storage (generate ev opts) (out opts) = Some (outputString b)"
    using assms(3) by (rule generate_storage_main)
qed

lemma generate_buffers_text:
  assumes "generate_buffers ev opts = Inr (b, rej)"
  shows "rej = firstFailure ev opts (generate_program ev opts)
                 (getSourceFiles (generate_program ev opts))"
    and "outputString b
           = (case generate_outputRefPath opts of
                None \<Rightarrow> []
              | Some p \<Rightarrow> if wroteToOutputRef b then referenceLine p (generate_eol ev opts) else [])
             @ concat (map (\<lambda>p. referenceLine p (generate_eol ev opts))
                           (case externs opts of None \<Rightarrow> [] | Some xs \<Rightarrow> xs))
             @ concat (map (unitBlock ev opts (generate_program ev opts))
                           (unitsReached ev opts (generate_program ev opts)
                              (getSourceFiles (generate_program ev opts))))
             @ mainAlias ev opts"
proof -
  from assms obtain b1 where
    s: "someSourceFile ev opts (generate_program ev opts) (getSourceFiles (generate_program ev opts))
       \<lparr>outputString = externLines ev opts, outputRefString = [], wroteToOutputRef = False\<rparr>
     = Inr (b1, rej)"
    and w: "wroteToOutputRef b = wroteToOutputRef b1"
    and o: "outputString b
       = (if wroteToOutputRef b1
          then referenceLine (case generate_outputRefPath opts of None \<Rightarrow> ''undefined'' | Some p \<Rightarrow> p)
                 (generate_eol ev opts)
          else [])
         @ outputString b1 @ mainAlias ev opts"
    by (rule generate_buffers_Inr)
  from someSourceFile_Inr(1)[OF s]
  have r: "rej = firstFailure ev opts (generate_program ev opts)
                   (getSourceFiles (generate_program ev opts))"
    and p: "outputString b1 = externLines ev opts
          @ concat (map (unitBlock ev opts (generate_program ev opts))
                        (unitsReached ev opts (generate_program ev opts)
                           (getSourceFiles (generate_program ev opts))))"
    by auto
  show "rej = firstFailure ev opts (generate_program ev opts)
                   (getSourceFiles (generate_program ev opts))"
    by (rule r)
  have "wroteToOutputRef b \<Longrightarrow> generate_outputRefPath opts \<noteq> None"
    by (rule generate_buffers_refInvariant(2)[OF assms])
  then show "outputString b
           = (case generate_outputRefPath opts of
                None \<Rightarrow> []
              | Some p \<Rightarrow> if wroteToOutputRef b then referenceLine p (generate_eol ev opts) else [])
             @ concat (map (\<lambda>p. referenceLine p (generate_eol ev opts))
                           (case externs opts of None \<Rightarrow> [] | Some xs \<Rightarrow> xs))
             @ concat (map (unitBlock ev opts (generate_program ev opts))
                           (unitsReached ev opts (generate_program ev opts)
                              (getSourceFiles (generate_program ev opts))))
             @ mainAlias ev opts"
    using o w p by (auto simp: externLines_concat split: option.splits)
qed

lemma generate_storage_aux:
  assumes "generate_buffers ev opts = Inr (b, rej)" and "generate_outputRefPath opts = Some p"
  shows "wroteToOutputRef b
           \<longleftrightarrow> (case storage (generate ev opts) p of None \<Rightarrow> False | Some s \<Rightarrow> s \<noteq> [])"
  using generate_buffers_refInvariant(1)[OF assms(1)]
  by (auto simp: generate_storage_auxiliary[OF assms] auxiliaryFile_def refInvariant_def
           split: option.splits)

text \<open>
  Claim C7, amended. Whenever a run reaches \<open>output.write\<close>, the main file holds, in this
  order: the reference directive to the auxiliary file, when a reference was hoisted;
  the reference directives of the externs, in the order given; one block for every unit
  that the loop has reached, in the order of enumeration; the alias of the main module.
  The units reached are all the units when the emitter fails on none, and otherwise the
  units up to the first on which it fails. The block of a unit is its text, or its
  indented module, as \<open>writeDeclaration\<close> writes it. The reference to the auxiliary file
  is there exactly when the auxiliary file is not empty after the run.
\<close>

theorem main_bundle_order:
  assumes "generate_buffers ev opts = Inr (b, rejected)"
  shows "storage (generate ev opts) (out opts)
           = Some ((case generate_outputRefPath opts of
                      None \<Rightarrow> []
                    | Some p \<Rightarrow> if wroteToOutputRef b then referenceLine p (generate_eol ev opts) else [])
                   @ concat (map (\<lambda>p. referenceLine p (generate_eol ev opts))
                                 (case externs opts of None \<Rightarrow> [] | Some xs \<Rightarrow> xs))
                   @ concat (map (unitBlock ev opts (generate_program ev opts))
                                 (unitsReached ev opts (generate_program ev opts)
                                    (getSourceFiles (generate_program ev opts))))
                   @ mainAlias ev opts)
         \<and> (rejected = None \<longrightarrow>
               unitsReached ev opts (generate_program ev opts)
                 (getSourceFiles (generate_program ev opts))
               = getSourceFiles (generate_program ev opts))
         \<and> (\<forall>p. generate_outputRefPath opts = Some p \<longrightarrow>
               (wroteToOutputRef b
                  \<longleftrightarrow> (case storage (generate ev opts) p of None \<Rightarrow> False | Some s \<Rightarrow> s \<noteq> [])))"
proof (intro conjI allI impI)
  from generate_buffers_text(2)[OF assms] generate_storage_main[OF assms]
  show "storage (generate ev opts) (out opts)
           = Some ((case generate_outputRefPath opts of
                      None \<Rightarrow> []
                    | Some p \<Rightarrow> if wroteToOutputRef b then referenceLine p (generate_eol ev opts) else [])
                   @ concat (map (\<lambda>p. referenceLine p (generate_eol ev opts))
                                 (case externs opts of None \<Rightarrow> [] | Some xs \<Rightarrow> xs))
                   @ concat (map (unitBlock ev opts (generate_program ev opts))
                                 (unitsReached ev opts (generate_program ev opts)
                                    (getSourceFiles (generate_program ev opts))))
                   @ mainAlias ev opts)"
    by simp
next
  assume "rejected = None"
  with generate_buffers_text(1)[OF assms]
  have "firstFailure ev opts (generate_program ev opts)
          (getSourceFiles (generate_program ev opts)) = None"
    by simp
  then show "unitsReached ev opts (generate_program ev opts)
                 (getSourceFiles (generate_program ev opts))
               = getSourceFiles (generate_program ev opts)"
    by (rule unitsReached_first(4))
next
  fix p assume "generate_outputRefPath opts = Some p"
  with assms show "wroteToOutputRef b
           \<longleftrightarrow> (case storage (generate ev opts) p of None \<Rightarrow> False | Some s \<Rightarrow> s \<noteq> [])"
    by (rule generate_storage_aux)
qed

text \<open>
  Claim C1, amended. Let the emitter fail on a unit (its emit is skipped or has
  diagnostics) in a run that processes its units: \<open>new RegExp\<close> has not thrown before.
  Then the promise is rejected, and the units after the failing one are not processed:
  the loop gives the same result without them. Where the run reaches \<open>output.write\<close>, the
  promise is rejected with the error of the loop, and the main buffer is still written
  to the main file: the reference to the auxiliary file if one was hoisted, the
  directives of the externs, the blocks of the units that the loop has reached, and the
  alias. The auxiliary file is finalized as on any run: it holds the auxiliary buffer if
  a reference was hoisted, and it is unlinked otherwise. If the emitter fails on no unit
  before the failing one, the error is the error of that unit, and the units reached
  are those before it and the unit itself.
\<close>

theorem emit_failure:
  assumes "getSourceFiles (generate_program ev opts) = before @ failing # remaining"
    and "emitFails ev opts (generate_program ev opts) failing"
    and "generate_nonEmptyLineStart_error ev opts = None"
  shows "(\<exists>err. promise (generate ev opts) = Rejected err)
         \<and> (\<forall>b0. someSourceFile ev opts (generate_program ev opts) (before @ failing # remaining) b0
                  = someSourceFile ev opts (generate_program ev opts) (before @ [failing]) b0)
         \<and> (\<forall>b rejected. generate_buffers ev opts = Inr (b, rejected) \<longrightarrow>
               (\<exists>err. rejected = Some err \<and> promise (generate ev opts) = Rejected err)
               \<and> storage (generate ev opts) (out opts)
                   = Some ((case generate_outputRefPath opts of
                              None \<Rightarrow> []
                            | Some p \<Rightarrow>
                                if wroteToOutputRef b then referenceLine p (generate_eol ev opts)
                                else [])
                           @ concat (map (\<lambda>p. referenceLine p (generate_eol ev opts))
                                         (case externs opts of None \<Rightarrow> [] | Some xs \<Rightarrow> xs))
                           @ concat (map (unitBlock ev opts (generate_program ev opts))
                                         (unitsReached ev opts (generate_program ev opts)
                                            (before @ [failing])))
                           @ mainAlias ev opts)
               \<and> (\<forall>p. generate_outputRefPath opts = Some p \<longrightarrow>
                     storage (generate ev opts) p = auxiliaryFile ev p b)
               \<and> (list_all (\<lambda>u. \<not> emitFails ev opts (generate_program ev opts) u) before \<longrightarrow>
                     rejected = Some (emitError (generate_program ev opts) failing)
                     \<and> unitsReached ev opts (generate_program ev opts) (before @ [failing])
                         = before @ [failing]))"
proof (intro conjI allI impI)
  show "\<exists>err. promise (generate ev opts) = Rejected err"
  proof (cases "generate_buffers ev opts")
    case (Inl err)
    then show ?thesis using assms(3) by (simp add: generate_def Let_def)
  next
    case (Inr r)
    obtain b rej where r: "r = (b, rej)" by (cases r)
    from Inr r have g: "generate_buffers ev opts = Inr (b, rej)" by simp
    from g obtain b1 :: buffers where
      s: "someSourceFile ev opts (generate_program ev opts) (getSourceFiles (generate_program ev opts))
         \<lparr>outputString = externLines ev opts, outputRefString = [], wroteToOutputRef = False\<rparr>
       = Inr (b1, rej)"
      by (rule generate_buffers_Inr)
    have "rej \<noteq> None"
    proof
      assume "rej = None"
      with s assms(1) have "someSourceFile ev opts (generate_program ev opts)
          (before @ failing # remaining)
          \<lparr>outputString = externLines ev opts, outputRefString = [], wroteToOutputRef = False\<rparr>
        = Inr (b1, None)"
        by simp
      with someSourceFile_stops(2)[OF assms(2)] show False by blast
    qed
    then show ?thesis using generate_promise[OF g]
      by (auto simp: settle_def)
  qed
next
  fix b0
  show "someSourceFile ev opts (generate_program ev opts) (before @ failing # remaining) b0
          = someSourceFile ev opts (generate_program ev opts) (before @ [failing]) b0"
    using assms(2) by (rule someSourceFile_stops(1))
next
  fix b rejected assume g: "generate_buffers ev opts = Inr (b, rejected)"
  have u: "unitsReached ev opts (generate_program ev opts) (getSourceFiles (generate_program ev opts))
             = unitsReached ev opts (generate_program ev opts) (before @ [failing])"
    unfolding assms(1) using assms(2) by (rule unitsReached_first(1))
  have f: "rejected = firstFailure ev opts (generate_program ev opts) (before @ failing # remaining)"
    using generate_buffers_text(1)[OF g] assms(1) by simp
  have "firstFailure ev opts (generate_program ev opts) (before @ failing # remaining) \<noteq> None"
    using assms(2) by (induction before) simp_all
  with f obtain err where e: "rejected = Some err" by auto
  then have "promise (generate ev opts) = Rejected err"
    using generate_promise[OF g] by (simp add: settle_def)
  with e show "\<exists>err. rejected = Some err \<and> promise (generate ev opts) = Rejected err"
    by blast
  from generate_buffers_text(2)[OF g] generate_storage_main[OF g]
  show "storage (generate ev opts) (out opts)
                   = Some ((case generate_outputRefPath opts of
                              None \<Rightarrow> []
                            | Some p \<Rightarrow>
                                if wroteToOutputRef b then referenceLine p (generate_eol ev opts)
                                else [])
                           @ concat (map (\<lambda>p. referenceLine p (generate_eol ev opts))
                                         (case externs opts of None \<Rightarrow> [] | Some xs \<Rightarrow> xs))
                           @ concat (map (unitBlock ev opts (generate_program ev opts))
                                         (unitsReached ev opts (generate_program ev opts)
                                            (before @ [failing])))
                           @ mainAlias ev opts)"
    by (simp add: u)
  { fix p assume "generate_outputRefPath opts = Some p"
    with g show "storage (generate ev opts) p = auxiliaryFile ev p b"
      by (rule generate_storage_auxiliary) }
  { assume l: "list_all (\<lambda>u. \<not> emitFails ev opts (generate_program ev opts) u) before"
    from unitsReached_first(2)[OF assms(2) l, of remaining] f
    show "rejected = Some (emitError (generate_program ev opts) failing)"
      by simp
    from unitsReached_first(2)[OF assms(2) l, of remaining]
    show "unitsReached ev opts (generate_program ev opts) (before @ [failing]) = before @ [failing]"
      by simp }
qed


section \<open>The example: the auxiliary file\<close>

text \<open>
  Claim C8. The comment above the finalization says that an empty auxiliary file is
  deleted before the promise completes. The unlink is issued in the turn that creates
  and ends the auxiliary stream, so on a runtime that opens the file of a stream after
  that turn the unlink comes first. With the units \<open>a.d.ts\<close> and \<open>b.ts\<close> no reference is
  hoisted and the emitter fails on no unit. If an auxiliary file of an earlier run is on
  disk, the unlink removes it, the promise is resolved, and the stream then creates the
  file again: an empty auxiliary file exists after a run that succeeds. If none is on
  disk, the unlink fails with \<open>ENOENT\<close>: the run is rejected and the empty file is left.
  Only where the stream opens its file before the unlink does the run succeed and leave
  no auxiliary file.
\<close>

theorem auxiliary_file_left_behind:
  "unlinkBeforeOpen (exampleEnv [exampleA, exampleBts] None)
   \<and> generate_outputRefPath exampleOptions = Some ''/out/pkg.ref.d.ts''
   \<and> (case generate_buffers
              ((exampleEnv [exampleA, exampleBts] None)\<lparr>disk := [''/out/pkg.ref.d.ts'' \<mapsto> ''stale'']\<rparr>)
              exampleOptions of
         Inl err \<Rightarrow> False
       | Inr (b, rejected) \<Rightarrow> \<not> wroteToOutputRef b \<and> outputRefString b = [] \<and> rejected = None)
   \<and> promise (generate
                 ((exampleEnv [exampleA, exampleBts] None)\<lparr>disk := [''/out/pkg.ref.d.ts'' \<mapsto> ''stale'']\<rparr>)
                 exampleOptions)
       = Resolved
   \<and> storage (generate
                 ((exampleEnv [exampleA, exampleBts] None)\<lparr>disk := [''/out/pkg.ref.d.ts'' \<mapsto> ''stale'']\<rparr>)
                 exampleOptions) ''/out/pkg.ref.d.ts''
       = Some []
   \<and> promise (generate (exampleEnv [exampleA, exampleBts] None) exampleOptions)
       = Rejected (ErrnoException ''ENOENT'')
   \<and> storage (generate (exampleEnv [exampleA, exampleBts] None) exampleOptions) ''/out/pkg.ref.d.ts''
       = Some []
   \<and> promise (generate ((exampleEnv [exampleA, exampleBts] None)\<lparr>unlinkBeforeOpen := False\<rparr>)
                 exampleOptions)
       = Resolved
   \<and> storage (generate ((exampleEnv [exampleA, exampleBts] None)\<lparr>unlinkBeforeOpen := False\<rparr>)
                 exampleOptions) ''/out/pkg.ref.d.ts''
       = None"
  by code_simp




section \<open>The example: the main file\<close>

text \<open>
  With \<open>main = "./b"\<close> and \<open>name = "pkg"\<close> the unit \<open>b.ts\<close> becomes the module \<open>pkg/b\<close>, and
  the alias that follows it requires \<open>'./b'\<close>: it is not the block that requires
  \<open>'pkg/b'\<close>.
\<close>

theorem main_alias_counterexample:
  "main (exampleOptions\<lparr>externs := None\<rparr>) = Some ''./b''
   \<and> name (exampleOptions\<lparr>externs := None\<rparr>) = ''pkg''
   \<and> storage (generate (exampleEnv [exampleBts] None) (exampleOptions\<lparr>externs := None\<rparr>))
         ''/out/pkg.d.ts''
       = Some (''declare module '' @ quoted ''pkg/b'' @ '' {\<newline>  import a = require(''
                 @ quoted ''pkg/a'' @ '');\<newline>  export var x: number;\<newline>\<newline>}\<newline>''
               @ ''declare module '' @ quoted ''pkg'' @ '' {\<newline>  import main = require(''
                 @ quoted ''./b'' @ '');\<newline>  export = main;\<newline>}\<newline>'')
   \<and> mainAlias (exampleEnv [exampleBts] None) (exampleOptions\<lparr>externs := None\<rparr>)
       \<noteq> ''declare module '' @ quoted ''pkg'' @ '' {\<newline>  import main = require(''
                 @ quoted ''pkg/b'' @ '');\<newline>  export = main;\<newline>}\<newline>''"
  by code_simp

text \<open>
  With \<open>main = "pkg/b"\<close> the main file ends with the alias of \<open>pkg\<close> to the module
  \<open>pkg/b\<close>.
\<close>

theorem main_alias_witness:
  "main (exampleOptions\<lparr>main := Some ''pkg/b''\<rparr>) = Some ''pkg/b''
   \<and> (case generate_buffers (exampleEnv [exampleA, exampleBts] None)
              (exampleOptions\<lparr>main := Some ''pkg/b''\<rparr>) of
         Inl err \<Rightarrow> False
       | Inr (b, rejected) \<Rightarrow>
           suffix (''declare module '' @ quoted ''pkg'' @ '' {\<newline>  import main = require(''
                     @ quoted ''pkg/b'' @ '');\<newline>  export = main;\<newline>}\<newline>'')
                  (outputString b)
           \<and> storage (generate (exampleEnv [exampleA, exampleBts] None)
                          (exampleOptions\<lparr>main := Some ''pkg/b''\<rparr>)) ''/out/pkg.d.ts''
               = Some (outputString b))"
proof -
  let ?e = "exampleEnv [exampleA, exampleBts] None" and ?o = "exampleOptions\<lparr>main := Some ''pkg/b''\<rparr>"
  have m: "main ?o = Some ''pkg/b''" by simp
  have v: "name ?o = ''pkg''" "generate_eol ?e ?o = ''\<newline>''" "generate_indent ?o = ''  ''"
    "out ?o = ''/out/pkg.d.ts''"
    by code_simp+
  have "case generate_buffers ?e ?o of Inl err \<Rightarrow> False | Inr (b, rejected) \<Rightarrow> True"
    by code_simp
  then obtain b r where g: "generate_buffers ?e ?o = Inr (b, r)"
    by (auto split: sum.splits)
  from main_alias[OF m _ g]
  have "suffix (''declare module '' @ quoted ''pkg'' @ '' {\<newline>  import main = require(''
                     @ quoted ''pkg/b'' @ '');\<newline>  export = main;\<newline>}\<newline>'')
                  (outputString b)
        \<and> storage (generate ?e ?o) ''/out/pkg.d.ts'' = Some (outputString b)"
    unfolding v by simp
  then show ?thesis using m g by simp
qed

text \<open>
  With the externs \<open>x.d.ts\<close> and \<open>y.d.ts\<close> and the unit \<open>c.d.ts\<close>, whose reference is
  hoisted, the run succeeds and the first line of the main file is the reference to the
  auxiliary file: the main file does not begin with the two directives of the externs.
\<close>

theorem main_bundle_order_counterexample:
  "externs exampleOptions = Some [''x.d.ts'', ''y.d.ts'']
   \<and> promise (generate (exampleEnv [exampleC] None) exampleOptions) = Resolved
   \<and> storage (generate (exampleEnv [exampleC] None) exampleOptions) ''/out/pkg.d.ts''
       = Some (referenceLine ''/out/pkg.ref.d.ts'' ''\<newline>''
               @ referenceLine ''x.d.ts'' ''\<newline>''
               @ referenceLine ''y.d.ts'' ''\<newline>''
               @ ''declare module '' @ quoted ''pkg/c'' @ '' {\<newline>  ''
               @ referenceLine ''../typings/t.d.ts'' ''\<newline>''
               @ ''  export var y: number;\<newline>\<newline>}\<newline>''
               @ ''declare module '' @ quoted ''pkg'' @ '' {\<newline>  import main = require(''
               @ quoted ''./b'' @ '');\<newline>  export = main;\<newline>}\<newline>'')
   \<and> (case storage (generate (exampleEnv [exampleC] None) exampleOptions) ''/out/pkg.d.ts'' of
         None \<Rightarrow> False
       | Some s \<Rightarrow> \<not> prefix (referenceLine ''x.d.ts'' ''\<newline>'' @ referenceLine ''y.d.ts'' ''\<newline>'') s)"
  by code_simp

text \<open>
  The emitter fails on \<open>bad.ts\<close>, the second of three units: the promise is rejected, and
  the main file is written all the same, with the directives of the externs, the text
  of the first unit and the alias. It is not empty.
\<close>

theorem emit_failure_counterexample:
  "emitFails (exampleEnv [exampleA, exampleBad, exampleBts] None) exampleOptions
     (generate_program (exampleEnv [exampleA, exampleBad, exampleBts] None) exampleOptions) exampleBad
   \<and> promise (generate (exampleEnv [exampleA, exampleBad, exampleBts] None) exampleOptions)
       = Rejected (EmitterError
           ''Declaration generation failed\<newline>/pkg/src/bad.ts(1,9): error TS2304: Cannot find name q.'')
   \<and> storage (generate (exampleEnv [exampleA, exampleBad, exampleBts] None) exampleOptions)
         ''/out/pkg.d.ts''
       = Some (referenceLine ''x.d.ts'' ''\<newline>'' @ referenceLine ''y.d.ts'' ''\<newline>''
               @ ''declare var g: number;\<newline>''
               @ ''declare module '' @ quoted ''pkg'' @ '' {\<newline>  import main = require(''
               @ quoted ''./b'' @ '');\<newline>  export = main;\<newline>}\<newline>'')
   \<and> storage (generate (exampleEnv [exampleA, exampleBad, exampleBts] None) exampleOptions)
         ''/out/pkg.d.ts''
       \<noteq> Some []"
  by code_simp


text \<open>
  With the units \<open>a.d.ts\<close> and \<open>b.ts\<close> no unit fails and no reference is hoisted: both
  units are reached, the main file holds the directives of the two externs, the text of
  \<open>a.d.ts\<close>, the block of \<open>pkg/b\<close> and the alias, and there is no auxiliary file with a
  content.
\<close>

theorem main_bundle_order_witness:
  "(case generate_buffers (exampleEnv [exampleA, exampleBts] None) exampleOptions of
      Inl err \<Rightarrow> False
    | Inr (b, rejected) \<Rightarrow> rejected = None \<and> \<not> wroteToOutputRef b)
   \<and> storage (generate (exampleEnv [exampleA, exampleBts] None) exampleOptions) ''/out/pkg.d.ts''
       = Some (referenceLine ''x.d.ts'' ''\<newline>'' @ referenceLine ''y.d.ts'' ''\<newline>''
               @ ''declare var g: number;\<newline>''
               @ ''declare module '' @ quoted ''pkg/b'' @ '' {\<newline>  import a = require(''
               @ quoted ''pkg/a'' @ '');\<newline>  export var x: number;\<newline>\<newline>}\<newline>''
               @ ''declare module '' @ quoted ''pkg'' @ '' {\<newline>  import main = require(''
               @ quoted ''./b'' @ '');\<newline>  export = main;\<newline>}\<newline>'')
   \<and> unitsReached (exampleEnv [exampleA, exampleBts] None) exampleOptions
         (generate_program (exampleEnv [exampleA, exampleBts] None) exampleOptions)
         (getSourceFiles (generate_program (exampleEnv [exampleA, exampleBts] None) exampleOptions))
       = [exampleA, exampleBts]
   \<and> (case storage (generate (exampleEnv [exampleA, exampleBts] None) exampleOptions)
              ''/out/pkg.ref.d.ts'' of
         None \<Rightarrow> False | Some s \<Rightarrow> s \<noteq> [])
       = False"
proof -
  let ?e = "exampleEnv [exampleA, exampleBts] None"
  have c: "case generate_buffers ?e exampleOptions of
          Inl err \<Rightarrow> False | Inr (b, rejected) \<Rightarrow> rejected = None \<and> \<not> wroteToOutputRef b"
    by code_simp
  then obtain b where g: "generate_buffers ?e exampleOptions = Inr (b, None)"
    and w: "\<not> wroteToOutputRef b"
    by (auto split: sum.splits)
  have v: "out exampleOptions = ''/out/pkg.d.ts''"
    "generate_outputRefPath exampleOptions = Some ''/out/pkg.ref.d.ts''"
    "externs exampleOptions = Some [''x.d.ts'', ''y.d.ts'']"
    "generate_eol ?e exampleOptions = ''\<newline>''"
    by code_simp+
  have u: "getSourceFiles (generate_program ?e exampleOptions) = [exampleA, exampleBts]"
    by (simp add: generate_program_def exampleEnv_def exampleProgram_def)
  have k: "unitBlock ?e exampleOptions (generate_program ?e exampleOptions) exampleA
             = ''declare var g: number;\<newline>''"
    "unitBlock ?e exampleOptions (generate_program ?e exampleOptions) exampleBts
             = ''declare module '' @ quoted ''pkg/b'' @ '' {\<newline>  import a = require(''
               @ quoted ''pkg/a'' @ '');\<newline>  export var x: number;\<newline>\<newline>}\<newline>''"
    "mainAlias ?e exampleOptions
             = ''declare module '' @ quoted ''pkg'' @ '' {\<newline>  import main = require(''
               @ quoted ''./b'' @ '');\<newline>  export = main;\<newline>}\<newline>''"
    by code_simp+
  note th = main_bundle_order[OF g]
  from th have r: "unitsReached ?e exampleOptions (generate_program ?e exampleOptions)
                     (getSourceFiles (generate_program ?e exampleOptions))
                   = [exampleA, exampleBts]"
    unfolding u by simp
  from th
  have "storage (generate ?e exampleOptions) ''/out/pkg.d.ts''
       = Some (referenceLine ''x.d.ts'' ''\<newline>'' @ referenceLine ''y.d.ts'' ''\<newline>''
               @ ''declare var g: number;\<newline>''
               @ ''declare module '' @ quoted ''pkg/b'' @ '' {\<newline>  import a = require(''
               @ quoted ''pkg/a'' @ '');\<newline>  export var x: number;\<newline>\<newline>}\<newline>''
               @ ''declare module '' @ quoted ''pkg'' @ '' {\<newline>  import main = require(''
               @ quoted ''./b'' @ '');\<newline>  export = main;\<newline>}\<newline>'')"
    and "(case storage (generate ?e exampleOptions) ''/out/pkg.ref.d.ts'' of
            None \<Rightarrow> False | Some s \<Rightarrow> s \<noteq> [])
           = False"
    unfolding r unfolding v using w by (simp_all add: k)
  with c r show ?thesis by blast
qed

text \<open>
  The emitter fails on \<open>bad.ts\<close>, between \<open>a.d.ts\<close> and \<open>b.ts\<close>: the promise is rejected with
  the error of the emitter, the loop gives what it gives on the first two units alone,
  the main file holds the buffer without a block for \<open>b.ts\<close>, and the auxiliary file,
  to which nothing was hoisted, is left empty by the unlink that comes before its
  stream opens it.
\<close>

theorem emit_failure_witness:
  "getSourceFiles (generate_program (exampleEnv [exampleA, exampleBad, exampleBts] None) exampleOptions)
     = [exampleA] @ exampleBad # [exampleBts]
   \<and> emitFails (exampleEnv [exampleA, exampleBad, exampleBts] None) exampleOptions
       (generate_program (exampleEnv [exampleA, exampleBad, exampleBts] None) exampleOptions) exampleBad
   \<and> generate_nonEmptyLineStart_error (exampleEnv [exampleA, exampleBad, exampleBts] None) exampleOptions
       = None
   \<and> promise (generate (exampleEnv [exampleA, exampleBad, exampleBts] None) exampleOptions)
       = Rejected (EmitterError
           ''Declaration generation failed\<newline>/pkg/src/bad.ts(1,9): error TS2304: Cannot find name q.'')
   \<and> someSourceFile (exampleEnv [exampleA, exampleBad, exampleBts] None) exampleOptions
         (generate_program (exampleEnv [exampleA, exampleBad, exampleBts] None) exampleOptions)
         ([exampleA] @ exampleBad # [exampleBts])
         \<lparr>outputString = [], outputRefString = [], wroteToOutputRef = False\<rparr>
       = someSourceFile (exampleEnv [exampleA, exampleBad, exampleBts] None) exampleOptions
           (generate_program (exampleEnv [exampleA, exampleBad, exampleBts] None) exampleOptions)
           ([exampleA] @ [exampleBad])
           \<lparr>outputString = [], outputRefString = [], wroteToOutputRef = False\<rparr>
   \<and> storage (generate (exampleEnv [exampleA, exampleBad, exampleBts] None) exampleOptions)
         ''/out/pkg.d.ts''
       = Some (referenceLine ''x.d.ts'' ''\<newline>'' @ referenceLine ''y.d.ts'' ''\<newline>''
               @ ''declare var g: number;\<newline>''
               @ ''declare module '' @ quoted ''pkg'' @ '' {\<newline>  import main = require(''
               @ quoted ''./b'' @ '');\<newline>  export = main;\<newline>}\<newline>'')
   \<and> storage (generate (exampleEnv [exampleA, exampleBad, exampleBts] None) exampleOptions)
         ''/out/pkg.ref.d.ts''
       = Some []"
proof -
  let ?e = "exampleEnv [exampleA, exampleBad, exampleBts] None"
  let ?prog = "generate_program ?e exampleOptions"
  let ?err = "EmitterError
           ''Declaration generation failed\<newline>/pkg/src/bad.ts(1,9): error TS2304: Cannot find name q.''"
  have u: "getSourceFiles ?prog = [exampleA] @ exampleBad # [exampleBts]"
    by (simp add: generate_program_def exampleEnv_def exampleProgram_def)
  have f: "emitFails ?e exampleOptions ?prog exampleBad"
    by code_simp
  have n: "generate_nonEmptyLineStart_error ?e exampleOptions = None"
    by code_simp
  have l: "list_all (\<lambda>u. \<not> emitFails ?e exampleOptions ?prog u) [exampleA]"
    by code_simp
  have v: "out exampleOptions = ''/out/pkg.d.ts''"
    "generate_outputRefPath exampleOptions = Some ''/out/pkg.ref.d.ts''"
    "externs exampleOptions = Some [''x.d.ts'', ''y.d.ts'']"
    "generate_eol ?e exampleOptions = ''\<newline>''"
    by code_simp+
  have k: "unitBlock ?e exampleOptions ?prog exampleA = ''declare var g: number;\<newline>''"
    "unitBlock ?e exampleOptions ?prog exampleBad = []"
    "mainAlias ?e exampleOptions
             = ''declare module '' @ quoted ''pkg'' @ '' {\<newline>  import main = require(''
               @ quoted ''./b'' @ '');\<newline>  export = main;\<newline>}\<newline>''"
    "emitError ?prog exampleBad = ?err"
    by code_simp+
  have "case generate_buffers ?e exampleOptions of
          Inl err \<Rightarrow> False | Inr (b, rejected) \<Rightarrow> \<not> wroteToOutputRef b"
    by code_simp
  then obtain b r where g: "generate_buffers ?e exampleOptions = Inr (b, r)"
    and w: "\<not> wroteToOutputRef b"
    by (auto split: sum.splits)
  have a: "auxiliaryFile ?e ''/out/pkg.ref.d.ts'' b = Some []"
    using w by (simp add: auxiliaryFile_def exampleEnv_def)
  note th = emit_failure[OF u f n]
  from th have 1: "someSourceFile ?e exampleOptions ?prog
         ([exampleA] @ exampleBad # [exampleBts])
         \<lparr>outputString = [], outputRefString = [], wroteToOutputRef = False\<rparr>
       = someSourceFile ?e exampleOptions ?prog
           ([exampleA] @ [exampleBad])
           \<lparr>outputString = [], outputRefString = [], wroteToOutputRef = False\<rparr>"
    by blast
  from th g l have r: "r = Some (emitError ?prog exampleBad)"
    and q: "unitsReached ?e exampleOptions ?prog ([exampleA] @ [exampleBad]) = [exampleA] @ [exampleBad]"
    by blast+
  from th g obtain err where "r = Some err" "promise (generate ?e exampleOptions) = Rejected err"
    by blast
  with r have 2: "promise (generate ?e exampleOptions) = Rejected ?err"
    by (simp add: k)
  from th g have "storage (generate ?e exampleOptions) (out exampleOptions)
                   = Some ((case generate_outputRefPath exampleOptions of
                              None \<Rightarrow> []
                            | Some p \<Rightarrow>
                                if wroteToOutputRef b then referenceLine p (generate_eol ?e exampleOptions)
                                else [])
                           @ concat (map (\<lambda>p. referenceLine p (generate_eol ?e exampleOptions))
                                         (case externs exampleOptions of None \<Rightarrow> [] | Some xs \<Rightarrow> xs))
                           @ concat (map (unitBlock ?e exampleOptions ?prog)
                                         (unitsReached ?e exampleOptions ?prog
                                            ([exampleA] @ [exampleBad])))
                           @ mainAlias ?e exampleOptions)"
    by blast
  then have 3: "storage (generate ?e exampleOptions) ''/out/pkg.d.ts''
       = Some (referenceLine ''x.d.ts'' ''\<newline>'' @ referenceLine ''y.d.ts'' ''\<newline>''
               @ ''declare var g: number;\<newline>''
               @ ''declare module '' @ quoted ''pkg'' @ '' {\<newline>  import main = require(''
               @ quoted ''./b'' @ '');\<newline>  export = main;\<newline>}\<newline>'')"
    unfolding q unfolding v using w by (simp add: k)
  from th g v(2) have "storage (generate ?e exampleOptions) ''/out/pkg.ref.d.ts''
                         = auxiliaryFile ?e ''/out/pkg.ref.d.ts'' b"
    by blast
  with a have 4: "storage (generate ?e exampleOptions) ''/out/pkg.ref.d.ts'' = Some []"
    by simp
  from u f n 2 1 3 4 show ?thesis by blast
qed

end
